theory Spec2Isabelle
  imports Complex_Main "HOL-Library.Log_Nat"
begin

section \<open>The expense tracker of \<^verbatim>\<open>index.js\<close>\<close>

text \<open>
  The program is a command-line tool: every run parses one command, reads
  \<^verbatim>\<open>expenses.json\<close> (and \<^verbatim>\<open>budgets.json\<close>) whole, transforms the array in memory,
  writes it back whole and prints lines on the console. The embedding follows the
  source function by function.

  What is modelled, and how:
  \<^item> a number is NaN, an infinity or a rational, and the result of every
    arithmetic operation is rounded as IEEE 754 binary64 rounds it (to nearest,
    ties to even, overflow to an infinity). The two zeros are one value: no
    operation of the program tells them apart. A number field read from a
    document may also be \<open>null\<close>;
  \<^item> an expense is a record with the fields of the persisted document:
    \<open>id\<close> and \<open>amount\<close> numbers (or null), \<open>date\<close> and \<open>description\<close> strings,
    \<open>category\<close> a string that may be absent;
  \<^item> a string is a list of UTF-16 code units below 256 (the characters of
    Latin-1), one \<open>char\<close> each; text outside Latin-1 is not represented;
  \<^item> a file is missing, unparseable, or holds the text
    \<open>JSON.stringify(v, null, n)\<close>, written \<open>Json v n\<close>. Reading it is \<open>JSON.parse\<close> of
    that text: a NaN or an infinity of \<open>v\<close> has been written \<open>null\<close> and is read
    back as null;
  \<^item> the text the run-time library produces for a number is not computed: a
    printed line is a list of pieces, and a piece records which conversion the
    source applies to which value (\<open>Raw n\<close> for \<open>`${n}`\<close>, \<open>Fixed n k\<close> for
    \<open>n.toFixed(k)\<close>, \<open>Month_name m\<close> for the locale's long month name);
  \<^item> a \<open>throw\<close> is an error value: the handler stops, and the world is the one
    at the throw;
  \<^item> a call cannot take more arguments than the stack of the run allows: the
    bound is a field of the world, and \<open>Math.max(...ids)\<close> beyond it throws a
    RangeError;
  \<^item> the object built by \<open>summary --by-category\<close> is a property list in
    insertion order, on top of the properties every object inherits.
  The \<open>list\<close> command, which only prints a table, and \<open>sanitizeDescription\<close>,
  which no command calls, are left out.
\<close>

subsection \<open>Numbers of JavaScript\<close>

datatype jsnum = Null | NaN | PInf | NInf | Num rat

text \<open>Rounding a rational to the nearest double. For \<open>a > 0\<close>, \<open>floor_log2 a\<close> is the
  \<open>k\<close> with \<open>2^k \<le> a < 2^(k+1)\<close>. A double is \<open>m * 2^e\<close> with \<open>m\<close> an integer below \<open>2^53\<close>
  in magnitude and \<open>e\<close> at least \<open>-1074\<close>; what rounds to \<open>2^1024\<close> or more is an
  infinity.\<close>

definition floor_log2 :: "rat \<Rightarrow> int" where
  "floor_log2 a =
     (let d = bitlen (fst (quotient_of a)) - bitlen (snd (quotient_of a))
      in if 2 powi d \<le> a then d else d - 1)"

definition round_half_even :: "rat \<Rightarrow> int" where
  "round_half_even s =
     (let f = \<lfloor>s\<rfloor>; r = s - of_int f
      in if r < 1 / 2 then f else if 1 / 2 < r then f + 1 else if even f then f else f + 1)"

definition round_double :: "rat \<Rightarrow> jsnum" where
  "round_double x =
     (if x = 0 then Num 0
      else let e = max (floor_log2 \<bar>x\<bar> - 52) (- 1074);
               v = of_int (round_half_even (\<bar>x\<bar> / 2 powi e)) * 2 powi e
           in if 2 ^ 1024 \<le> v then (if 0 < x then PInf else NInf)
              else Num (if 0 < x then v else - v))"

text \<open>\<open>!x\<close> is false exactly on truthy values: a number other than 0 and NaN, a
  non-empty string; null is falsy.\<close>

fun truthy_num :: "jsnum \<Rightarrow> bool" where
  "truthy_num (Num q) = (q \<noteq> 0)"
| "truthy_num PInf = True"
| "truthy_num NInf = True"
| "truthy_num NaN = False"
| "truthy_num Null = False"

definition truthy_str :: "string \<Rightarrow> bool" where
  "truthy_str s = (s \<noteq> [])"

text \<open>Arithmetic and comparison take null as 0.\<close>

fun ToNumber :: "jsnum \<Rightarrow> jsnum" where
  "ToNumber Null = Num 0"
| "ToNumber n = n"

fun js_add :: "jsnum \<Rightarrow> jsnum \<Rightarrow> jsnum" where
  "js_add (Num a) (Num b) = round_double (a + b)"
| "js_add NaN y = NaN"
| "js_add x NaN = NaN"
| "js_add PInf NInf = NaN"
| "js_add NInf PInf = NaN"
| "js_add PInf y = PInf"
| "js_add x PInf = PInf"
| "js_add NInf y = NInf"
| "js_add x NInf = NInf"
| "js_add Null (Num b) = round_double b"
| "js_add (Num a) Null = round_double a"
| "js_add Null Null = Num 0"

fun js_neg :: "jsnum \<Rightarrow> jsnum" where
  "js_neg (Num a) = Num (- a)"
| "js_neg PInf = NInf"
| "js_neg NInf = PInf"
| "js_neg NaN = NaN"
| "js_neg Null = Num 0"

definition js_sub :: "jsnum \<Rightarrow> jsnum \<Rightarrow> jsnum" where
  "js_sub x y = js_add x (js_neg y)"

text \<open>\<open>a >= b\<close> and \<open>a <= b\<close>: false as soon as one side is NaN.\<close>

fun js_ge :: "jsnum \<Rightarrow> jsnum \<Rightarrow> bool" where
  "js_ge NaN y = False"
| "js_ge x NaN = False"
| "js_ge PInf y = True"
| "js_ge x NInf = True"
| "js_ge NInf y = False"
| "js_ge x PInf = False"
| "js_ge (Num a) (Num b) = (b \<le> a)"
| "js_ge Null (Num b) = (b \<le> 0)"
| "js_ge (Num a) Null = (0 \<le> a)"
| "js_ge Null Null = True"

definition js_le :: "jsnum \<Rightarrow> jsnum \<Rightarrow> bool" where
  "js_le x y = js_ge y x"

text \<open>\<open>a === b\<close> converts nothing: NaN equals nothing, null only null.\<close>

fun strict_eq :: "jsnum \<Rightarrow> jsnum \<Rightarrow> bool" where
  "strict_eq (Num a) (Num b) = (a = b)"
| "strict_eq PInf PInf = True"
| "strict_eq NInf NInf = True"
| "strict_eq Null Null = True"
| "strict_eq _ _ = False"

definition isNaN :: "jsnum \<Rightarrow> bool" where
  "isNaN n = (ToNumber n = NaN)"

text \<open>\<open>Math.max(x, ...xs)\<close> on at least one argument: NaN as soon as one argument is
  NaN. (\<open>Math.max()\<close> of no argument is never evaluated by \<open>generateId\<close>.)\<close>

fun js_max2 :: "jsnum \<Rightarrow> jsnum \<Rightarrow> jsnum" where
  "js_max2 NaN y = NaN"
| "js_max2 x NaN = NaN"
| "js_max2 PInf y = PInf"
| "js_max2 x PInf = PInf"
| "js_max2 NInf y = ToNumber y"
| "js_max2 x NInf = ToNumber x"
| "js_max2 (Num a) (Num b) = Num (max a b)"
| "js_max2 Null (Num b) = Num (max 0 b)"
| "js_max2 (Num a) Null = Num (max a 0)"
| "js_max2 Null Null = Num 0"

definition Math_max :: "jsnum \<Rightarrow> jsnum list \<Rightarrow> jsnum" where
  "Math_max x xs = foldl js_max2 (ToNumber x) xs"

subsection \<open>Strings of JavaScript\<close>

text \<open>\<open>a || b\<close> on strings that may be undefined: \<open>b\<close> when \<open>a\<close> is undefined or empty.\<close>

fun or_str :: "string option \<Rightarrow> string \<Rightarrow> string" where
  "or_str None d = d"
| "or_str (Some s) d = (if truthy_str s then s else d)"

text \<open>\<open>toLowerCase\<close> on Latin-1: the letters A to Z, and the accented capitals
  \<open>0xC0\<close> to \<open>0xDE\<close> but for the multiplication sign \<open>0xD7\<close>, go to the code unit 32
  above.\<close>

definition upper_case :: string where
  "upper_case =
     ''ABCDEFGHIJKLMNOPQRSTUVWXYZ'' @
     [CHR 0xC0, CHR 0xC1, CHR 0xC2, CHR 0xC3, CHR 0xC4, CHR 0xC5, CHR 0xC6, CHR 0xC7,
      CHR 0xC8, CHR 0xC9, CHR 0xCA, CHR 0xCB, CHR 0xCC, CHR 0xCD, CHR 0xCE, CHR 0xCF,
      CHR 0xD0, CHR 0xD1, CHR 0xD2, CHR 0xD3, CHR 0xD4, CHR 0xD5, CHR 0xD6, CHR 0xD8,
      CHR 0xD9, CHR 0xDA, CHR 0xDB, CHR 0xDC, CHR 0xDD, CHR 0xDE]"

definition lower_case :: string where
  "lower_case =
     ''abcdefghijklmnopqrstuvwxyz'' @
     [CHR 0xE0, CHR 0xE1, CHR 0xE2, CHR 0xE3, CHR 0xE4, CHR 0xE5, CHR 0xE6, CHR 0xE7,
      CHR 0xE8, CHR 0xE9, CHR 0xEA, CHR 0xEB, CHR 0xEC, CHR 0xED, CHR 0xEE, CHR 0xEF,
      CHR 0xF0, CHR 0xF1, CHR 0xF2, CHR 0xF3, CHR 0xF4, CHR 0xF5, CHR 0xF6, CHR 0xF8,
      CHR 0xF9, CHR 0xFA, CHR 0xFB, CHR 0xFC, CHR 0xFD, CHR 0xFE]"

definition lower_char :: "char \<Rightarrow> char" where
  "lower_char c = (case map_of (zip upper_case lower_case) c of Some l \<Rightarrow> l | None \<Rightarrow> c)"

definition toLowerCase :: "string \<Rightarrow> string" where
  "toLowerCase s = map lower_char s"

definition padEnd :: "string \<Rightarrow> nat \<Rightarrow> string" where
  "padEnd s n = s @ replicate (n - length s) (CHR '' '')"

text \<open>\<open>s.split(d)\<close> for a one-character separator: never the empty array.\<close>

fun split :: "char \<Rightarrow> string \<Rightarrow> string list" where
  "split d [] = [[]]"
| "split d (c # cs) =
     (if c = d then [] # split d cs
      else (case split d cs of
              [] \<Rightarrow> [[c]]
            | s # ss \<Rightarrow> (c # s) # ss))"

text \<open>\<open>xs[i]\<close>: undefined out of range.\<close>

fun index :: "'a list \<Rightarrow> nat \<Rightarrow> 'a option" where
  "index [] i = None"
| "index (x # xs) 0 = Some x"
| "index (x # xs) (Suc i) = index xs i"

text \<open>\<open>parseInt(s)\<close> with no radix: leading white space is skipped (in Latin-1: tab,
  line feed, vertical tab, form feed, carriage return, space, no-break space),
  then an optional sign, then \<open>0x\<close> or \<open>0X\<close> selects radix 16 (radix 10 otherwise),
  then the longest run of digits of the radix is read; NaN when that run is
  empty, and otherwise the double nearest to the integer read.\<close>

definition is_space :: "char \<Rightarrow> bool" where
  "is_space c = ((of_char c :: nat) \<in> {9, 10, 11, 12, 13, 32, 160})"

definition digit_value :: "char \<Rightarrow> int" where
  "digit_value c =
     (let n = (of_char c :: int) in
      if 48 \<le> n \<and> n \<le> 57 then n - 48
      else if 97 \<le> n \<and> n \<le> 102 then n - 87
      else if 65 \<le> n \<and> n \<le> 70 then n - 55
      else 99)"

definition is_digit :: "int \<Rightarrow> char \<Rightarrow> bool" where
  "is_digit radix c = (digit_value c < radix)"

definition digits_value :: "int \<Rightarrow> string \<Rightarrow> int" where
  "digits_value radix ds = foldl (\<lambda>acc c. acc * radix + digit_value c) 0 ds"

fun strip_sign :: "string \<Rightarrow> bool \<times> string" where
  "strip_sign (c # cs) =
     (if c = CHR ''-'' then (True, cs) else if c = CHR ''+'' then (False, cs) else (False, c # cs))"
| "strip_sign [] = (False, [])"

fun strip_radix :: "string \<Rightarrow> int \<times> string" where
  "strip_radix (c # x # cs) =
     (if c = CHR ''0'' \<and> (x = CHR ''x'' \<or> x = CHR ''X'') then (16, cs) else (10, c # x # cs))"
| "strip_radix cs = (10, cs)"

definition parseInt :: "string \<Rightarrow> jsnum" where
  "parseInt s =
     (let (negative, s1) = strip_sign (dropWhile is_space s);
          (radix, s2) = strip_radix s1;
          ds = takeWhile (is_digit radix) s2
      in if ds = [] then NaN
         else if negative then js_neg (round_double (of_int (digits_value radix ds)))
         else round_double (of_int (digits_value radix ds)))"

text \<open>\<open>parseInt(x)\<close> of a value that may be undefined: \<open>parseInt(undefined)\<close> reads the
  string \<open>undefined\<close>, which has no digit.\<close>

fun parseInt_opt :: "string option \<Rightarrow> jsnum" where
  "parseInt_opt None = NaN"
| "parseInt_opt (Some s) = parseInt s"

subsection \<open>Expenses, files, console\<close>

record expense =
  id_e :: jsnum
  date :: string
  description :: string
  amount :: jsnum
  category :: "string option"

datatype 'a json_file = Missing | Unparseable | Json 'a nat

datatype piece =
    Lit string
  | Raw jsnum
  | Fixed jsnum nat
  | Month_name jsnum
  | Err_message

datatype line = Log "piece list" | Error "piece list"

text \<open>The calendar date of the run, as \<open>new Date()\<close> gives it in UTC.\<close>

record clock =
  year :: nat
  month :: nat
  day :: nat

record world =
  expenses_json :: "expense list json_file"
  budgets_json :: "(jsnum \<rightharpoonup> jsnum) json_file"
  files :: "string \<rightharpoonup> piece list"
  now :: clock
  argument_limit :: nat
  console :: "line list"

datatype error = Invalid_expense_data | Amount_must_be_positive | RangeError | TypeError

type_synonym 'a result = "(error + 'a) \<times> world"

definition console_log :: "piece list \<Rightarrow> world \<Rightarrow> world" where
  "console_log l w = w\<lparr>console := console w @ [Log l]\<rparr>"

definition console_error :: "piece list \<Rightarrow> world \<Rightarrow> world" where
  "console_error l w = w\<lparr>console := console w @ [Error l]\<rparr>"

text \<open>What \<open>JSON.parse\<close> reads back from what \<open>JSON.stringify\<close> wrote: a finite number
  is itself, and NaN, the infinities and null have all been written \<open>null\<close>.\<close>

fun JSON_number :: "jsnum \<Rightarrow> jsnum" where
  "JSON_number (Num q) = Num q"
| "JSON_number n = Null"

definition JSON_expense :: "expense \<Rightarrow> expense" where
  "JSON_expense e = e\<lparr>id_e := JSON_number (id_e e), amount := JSON_number (amount e)\<rparr>"

subsection \<open>Helper functions of the source\<close>

text \<open>Start of the module: the data file is created, holding the empty array, if
  it does not exist.\<close>

definition init :: "world \<Rightarrow> world" where
  "init w = (case expenses_json w of
               Missing \<Rightarrow> w\<lparr>expenses_json := Json [] 2\<rparr>
             | _ \<Rightarrow> w)"

definition readExpenses :: "world \<Rightarrow> expense list \<times> world" where
  "readExpenses w =
     (case expenses_json w of
        Json v n \<Rightarrow> (map JSON_expense v, w)
      | _ \<Rightarrow> ([], console_error [Lit ''Error reading expenses:'', Lit '' '', Err_message] w))"

definition validateAmount :: "jsnum \<Rightarrow> error + jsnum" where
  "validateAmount a =
     (if isNaN a \<or> js_le a (Num 0) then Inl Amount_must_be_positive else Inr a)"

text \<open>The test of \<open>writeExpenses\<close> on one record, and its \<open>forEach\<close>: the first record
  that fails throws.\<close>

definition invalid_expense :: "expense \<Rightarrow> bool" where
  "invalid_expense e =
     (\<not> truthy_num (id_e e) \<or> \<not> truthy_str (date e) \<or> \<not> truthy_str (description e)
      \<or> \<not> truthy_num (amount e))"

fun validate_each :: "expense list \<Rightarrow> error + unit" where
  "validate_each [] = Inr ()"
| "validate_each (e # es) =
     (if invalid_expense e then Inl Invalid_expense_data else validate_each es)"

definition writeExpenses :: "expense list \<Rightarrow> world \<Rightarrow> error + world" where
  "writeExpenses expenses w =
     (case validate_each expenses of
        Inl err \<Rightarrow> Inl err
      | Inr _ \<Rightarrow> Inr (w\<lparr>expenses_json := Json expenses 2\<rparr>))"

text \<open>\<open>generateId\<close> spreads the ids as the arguments of \<open>Math.max\<close>: more of them than
  a call can take throw a RangeError. The first argument is that bound.\<close>

fun generateId :: "nat \<Rightarrow> expense list \<Rightarrow> error + jsnum" where
  "generateId limit [] = Inr (Num 1)"
| "generateId limit (e # es) =
     (if limit < length (e # es) then Inl RangeError
      else Inr (js_add (Math_max (id_e e) (map id_e es)) (Num 1)))"

text \<open>\<open>date.toISOString().split('T')[0]\<close>: four digits of the year, two of the month,
  two of the day (years 0 to 9999).\<close>

definition digit_char :: "nat \<Rightarrow> char" where
  "digit_char d = ''0123456789'' ! (d mod 10)"

definition formatDate :: "clock \<Rightarrow> string" where
  "formatDate d =
     [digit_char (year d div 1000), digit_char (year d div 100), digit_char (year d div 10),
      digit_char (year d), CHR ''-'', digit_char (month d div 10), digit_char (month d),
      CHR ''-'', digit_char (day d div 10), digit_char (day d)]"

definition readBudgets :: "(jsnum \<rightharpoonup> jsnum) \<Rightarrow> world \<Rightarrow> (jsnum \<rightharpoonup> jsnum) \<times> world" where
  "readBudgets BUDGETS w =
     (case budgets_json w of
        Missing \<Rightarrow> (BUDGETS, w)
      | Unparseable \<Rightarrow>
          (BUDGETS, console_error [Lit ''Error reading budgets:'', Lit '' '', Err_message] w)
      | Json v n \<Rightarrow> (\<lambda>k. map_option JSON_number (v k), w))"

definition writeBudgets :: "(jsnum \<rightharpoonup> jsnum) \<Rightarrow> world \<Rightarrow> world" where
  "writeBudgets BUDGETS w = w\<lparr>budgets_json := Json BUDGETS 2\<rparr>"

subsection \<open>Objects as property lists\<close>

text \<open>\<open>acc[k] = v\<close> on an object: an existing property keeps its place, a new one is
  added last. \<open>Object.entries\<close> lists the properties whose name is an array index
  (a canonical decimal numeral below \<open>2^32 - 1\<close>) first, in ascending order, then
  the others in insertion order.\<close>

fun obj_set :: "(string \<times> 'v) list \<Rightarrow> string \<Rightarrow> 'v \<Rightarrow> (string \<times> 'v) list" where
  "obj_set [] k v = [(k, v)]"
| "obj_set ((k', v') # kvs) k v =
     (if k' = k then (k', v) # kvs else (k', v') # obj_set kvs k v)"

definition is_array_index :: "string \<Rightarrow> bool" where
  "is_array_index s =
     (s \<noteq> [] \<and> list_all (is_digit 10) s \<and> (s = ''0'' \<or> hd s \<noteq> CHR ''0'')
      \<and> digits_value 10 s < 4294967295)"

definition Object_entries :: "(string \<times> 'v) list \<Rightarrow> (string \<times> 'v) list" where
  "Object_entries obj =
     sort_key (\<lambda>kv. digits_value 10 (fst kv)) (filter (\<lambda>kv. is_array_index (fst kv)) obj)
     @ filter (\<lambda>kv. \<not> is_array_index (fst kv)) obj"

text \<open>The names every object inherits from \<open>Object.prototype\<close>. Read on an object
  that has no such property of its own, each gives a function, but for \<open>__proto__\<close>,
  which gives the prototype; and assigning a string to \<open>__proto__\<close> does nothing.\<close>

definition Object_prototype_names :: "string list" where
  "Object_prototype_names =
     [''constructor'', ''__defineGetter__'', ''__defineSetter__'', ''hasOwnProperty'',
      ''__lookupGetter__'', ''__lookupSetter__'', ''isPrototypeOf'', ''propertyIsEnumerable'',
      ''toString'', ''valueOf'', ''__proto__'', ''toLocaleString'']"

text \<open>\<open>x || 0\<close> on a number.\<close>

definition or_zero :: "jsnum \<Rightarrow> jsnum" where
  "or_zero n = (if truthy_num n then n else Num 0)"

subsection \<open>The commands\<close>

text \<open>Options of a command are its arguments here: a required option is a value
  (\<open>parseInt\<close> and \<open>parseFloat\<close> have been applied by the argument parser, so a
  number may be NaN or an infinity), an optional one may be undefined (\<open>None\<close>).\<close>

definition newExpense :: "jsnum \<Rightarrow> clock \<Rightarrow> string \<Rightarrow> jsnum \<Rightarrow> string option \<Rightarrow> expense" where
  "newExpense new_id today opt_description opt_amount opt_category =
     \<lparr>id_e = new_id, date = formatDate today, description = opt_description,
      amount = opt_amount, category = Some (or_str opt_category ''Other'')\<rparr>"

definition add_action :: "string \<Rightarrow> jsnum \<Rightarrow> string option \<Rightarrow> world \<Rightarrow> unit result" where
  "add_action opt_description opt_amount opt_category w =
     (let (expenses, w1) = readExpenses w
      in case generateId (argument_limit w1) expenses of
           Inl err \<Rightarrow> (Inl err, w1)
         | Inr new_id \<Rightarrow>
             (let e = newExpense new_id (now w1) opt_description opt_amount opt_category
              in case writeExpenses (expenses @ [e]) w1 of
                   Inl err \<Rightarrow> (Inl err, w1)
                 | Inr w2 \<Rightarrow>
                     (Inr (), console_log
                                [Lit ''# Expense added successfully (ID: '', Raw (id_e e),
                                 Lit '')''] w2)))"

fun findIndex :: "('a \<Rightarrow> bool) \<Rightarrow> 'a list \<Rightarrow> nat option" where
  "findIndex p [] = None"
| "findIndex p (x # xs) = (if p x then Some 0 else map_option Suc (findIndex p xs))"

definition not_found :: "jsnum \<Rightarrow> piece list" where
  "not_found opt_id = [Lit ''# Expense with ID '', Raw opt_id, Lit '' not found'']"

text \<open>The three conditional assignments of \<open>update\<close>: an option that is undefined
  or falsy leaves the field alone.\<close>

definition assign_fields :: "string option \<Rightarrow> jsnum option \<Rightarrow> string option \<Rightarrow> expense \<Rightarrow> expense" where
  "assign_fields opt_description opt_amount opt_category e =
     (let e1 = (case opt_description of
                  Some d \<Rightarrow> if truthy_str d then e\<lparr>description := d\<rparr> else e
                | None \<Rightarrow> e);
          e2 = (case opt_amount of
                  Some a \<Rightarrow> if truthy_num a then e1\<lparr>amount := a\<rparr> else e1
                | None \<Rightarrow> e1)
      in (case opt_category of
            Some c \<Rightarrow> if truthy_str c then e2\<lparr>category := Some c\<rparr> else e2
          | None \<Rightarrow> e2))"

definition update_action ::
  "jsnum \<Rightarrow> string option \<Rightarrow> jsnum option \<Rightarrow> string option \<Rightarrow> world \<Rightarrow> unit result" where
  "update_action opt_id opt_description opt_amount opt_category w =
     (let (expenses, w1) = readExpenses w
      in case findIndex (\<lambda>e. strict_eq (id_e e) opt_id) expenses of
           None \<Rightarrow> (Inr (), console_log (not_found opt_id) w1)
         | Some i \<Rightarrow>
             (case writeExpenses
                     (expenses[i := assign_fields opt_description opt_amount opt_category
                                      (expenses ! i)]) w1 of
                Inl err \<Rightarrow> (Inl err, w1)
              | Inr w2 \<Rightarrow> (Inr (), console_log [Lit ''# Expense updated successfully''] w2)))"

text \<open>\<open>xs.splice(i, 1)\<close>.\<close>

definition splice1 :: "nat \<Rightarrow> 'a list \<Rightarrow> 'a list" where
  "splice1 i xs = take i xs @ drop (Suc i) xs"

definition delete_action :: "jsnum \<Rightarrow> world \<Rightarrow> unit result" where
  "delete_action opt_id w =
     (let (expenses, w1) = readExpenses w
      in case findIndex (\<lambda>e. strict_eq (id_e e) opt_id) expenses of
           None \<Rightarrow> (Inr (), console_log (not_found opt_id) w1)
         | Some i \<Rightarrow>
             (case writeExpenses (splice1 i expenses) w1 of
                Inl err \<Rightarrow> (Inl err, w1)
              | Inr w2 \<Rightarrow> (Inr (), console_log [Lit ''# Expense deleted successfully''] w2)))"

definition set_budget_action :: "jsnum \<Rightarrow> jsnum \<Rightarrow> world \<Rightarrow> unit result" where
  "set_budget_action opt_month opt_amount w =
     (let (BUDGETS, w1) = readBudgets Map.empty w;
          w2 = writeBudgets (BUDGETS(opt_month \<mapsto> opt_amount)) w1
      in (Inr (), console_log
                    [Lit ''# Budget for '', Month_name opt_month, Lit '' set to $'',
                     Raw opt_amount] w2))"

text \<open>The pieces of \<open>summary\<close>: the category test, the month of a date, the sum, the
  budget lines, the breakdown by category.\<close>

definition matches_category :: "string \<Rightarrow> expense \<Rightarrow> bool" where
  "matches_category c e = (toLowerCase (or_str (category e) ''Other'') = toLowerCase c)"

definition month_of :: "expense \<Rightarrow> jsnum" where
  "month_of e = parseInt_opt (index (split (CHR ''-'') (date e)) 1)"

definition total_of :: "expense list \<Rightarrow> jsnum" where
  "total_of es = foldl (\<lambda>sum e. js_add sum (amount e)) (Num 0) es"

definition check_budget :: "jsnum \<Rightarrow> jsnum \<Rightarrow> world \<Rightarrow> world" where
  "check_budget opt_month tot w =
     (let (BUDGETS, w1) = readBudgets Map.empty w
      in case BUDGETS opt_month of
           None \<Rightarrow> w1
         | Some budget \<Rightarrow>
             if truthy_num budget then
               (if js_ge tot budget then
                  console_log
                    [Lit (''# WARNING: You'' @ [CHR 0x27] @ ''ve exceeded your ''),
                     Month_name opt_month, Lit '' budget of $'', Raw budget, Lit '' by $'',
                     Fixed (js_sub tot budget) 2] w1
                else
                  console_log
                    [Lit ''# Remaining budget for '', Month_name opt_month, Lit '': $'',
                     Fixed (js_sub budget tot) 2] w1)
             else w1)"

text \<open>A property of the object \<open>byCategory\<close> holds a number, or a string once the
  category is a name the empty object inherits: there \<open>acc[category] || 0\<close> is a
  function (or the prototype), and adding an amount to it gives a string.\<close>

datatype subtotal = Amount jsnum | Text

definition byCategory_step :: "(string \<times> subtotal) list \<Rightarrow> expense \<Rightarrow> (string \<times> subtotal) list" where
  "byCategory_step acc e =
     (let c = or_str (category e) ''Other''
      in if c = ''__proto__'' then acc
         else obj_set acc c
                (case map_of acc c of
                   Some (Amount n) \<Rightarrow> Amount (js_add (or_zero n) (amount e))
                 | Some Text \<Rightarrow> Text
                 | None \<Rightarrow> if c \<in> set Object_prototype_names then Text
                           else Amount (js_add (Num 0) (amount e))))"

definition byCategory_of :: "expense list \<Rightarrow> (string \<times> subtotal) list" where
  "byCategory_of es = foldl byCategory_step [] es"

text \<open>The \<open>forEach\<close> over the entries: \<open>amount.toFixed(2)\<close> on a string throws a
  TypeError, before the line is printed.\<close>

fun print_entries :: "(string \<times> subtotal) list \<Rightarrow> world \<Rightarrow> unit result" where
  "print_entries [] w = (Inr (), w)"
| "print_entries ((k, Amount n) # kvs) w =
     print_entries kvs
       (console_log [Lit ''# '', Lit (padEnd k 12), Lit '': $'', Fixed n 2] w)"
| "print_entries ((k, Text) # kvs) w = (Inl TypeError, w)"

definition print_byCategory :: "expense list \<Rightarrow> world \<Rightarrow> unit result" where
  "print_byCategory filtered w =
     print_entries (Object_entries (byCategory_of filtered))
       (console_log [Lit (CHR 0x0A # ''# Expenses by category:'')] w)"

definition summary_action :: "jsnum option \<Rightarrow> string option \<Rightarrow> bool \<Rightarrow> world \<Rightarrow> unit result" where
  "summary_action opt_month opt_category opt_byCategory w =
     (let (expenses, w1) = readExpenses w;
          filtered = (case opt_category of
                        Some c \<Rightarrow> if truthy_str c then filter (matches_category c) expenses
                                  else expenses
                      | None \<Rightarrow> expenses);
          (filtered', w2) =
            (case opt_month of
               Some m \<Rightarrow>
                 if truthy_num m then
                   (let by_month = filter (\<lambda>e. strict_eq (month_of e) m) expenses;
                        tot = total_of by_month
                    in (by_month,
                        check_budget m tot
                          (console_log [Lit ''# Total expenses for '', Month_name m, Lit '': $'',
                                        Raw tot] w1)))
                 else (filtered, console_log [Lit ''# Total expenses: $'', Raw (total_of filtered)] w1)
             | None \<Rightarrow>
                 (filtered, console_log [Lit ''# Total expenses: $'', Raw (total_of filtered)] w1))
      in if opt_byCategory then print_byCategory filtered' w2 else (Inr (), w2))"

text \<open>\<open>export\<close>: the header, then one template per expense, appended in store order.\<close>

definition csv_header :: "piece list" where
  "csv_header = [Lit (''ID,Date,Category,Description,Amount'' @ [CHR 0x0A])]"

definition csv_row :: "expense \<Rightarrow> piece list" where
  "csv_row e =
     [Raw (id_e e), Lit '','', Lit (date e), Lit '','', Lit (or_str (category e) ''Other''),
      Lit ('','' @ [CHR 0x22]), Lit (description e), Lit ([CHR 0x22] @ '',''), Raw (amount e),
      Lit [CHR 0x0A]]"

definition export_action :: "string option \<Rightarrow> world \<Rightarrow> unit result" where
  "export_action opt_file w =
     (let (expenses, w1) = readExpenses w;
          outputFile = or_str opt_file ''expenses.csv'';
          csv = foldl (\<lambda>csv e. csv @ csv_row e) csv_header expenses;
          w2 = w1\<lparr>files := (files w1)(outputFile \<mapsto> csv)\<rparr>
      in (Inr (), console_log [Lit ''# Expenses exported to '', Lit outputFile] w2))"

subsection \<open>Sample documents\<close>

text \<open>Records and a world used where a property is evaluated on a concrete run.\<close>

abbreviation lunch :: expense where
  "lunch \<equiv> \<lparr>id_e = Num 1, date = ''2024-08-01'', description = ''Lunch'', amount = Num 20,
             category = Some ''Food''\<rparr>"

abbreviation coffee :: expense where
  "coffee \<equiv> \<lparr>id_e = Num 2, date = ''2024-08-02'', description = ''Coffee'', amount = Num 5,
              category = None\<rparr>"

abbreviation rent :: expense where
  "rent \<equiv> \<lparr>id_e = Num 3, date = ''2024-08-03'', description = ''Rent'', amount = Num 575,
            category = Some ''Housing''\<rparr>"

abbreviation taxi :: expense where
  "taxi \<equiv> \<lparr>id_e = Num 4, date = ''2024-09-10'', description = ''Taxi'', amount = Num 30,
            category = Some ''Transportation''\<rparr>"

abbreviation world_of :: "expense list \<Rightarrow> (jsnum \<rightharpoonup> jsnum) json_file \<Rightarrow> world" where
  "world_of es b \<equiv> \<lparr>expenses_json = Json es 2, budgets_json = b, files = Map.empty,
                     now = \<lparr>year = 2024, month = 8, day = 15\<rparr>, argument_limit = 100000,
                     console = []\<rparr>"

section \<open>Properties\<close>

subsection \<open>Rounding to a double\<close>

lemma floor_log2_bounds:
  assumes "0 < a"
  shows "2 powi floor_log2 a \<le> a \<and> a < 2 powi (floor_log2 a + 1)"
proof -
  obtain p q where pq: "quotient_of a = (p, q)" by (cases "quotient_of a")
  then have q: "0 < q" and a: "a = of_int p / of_int q"
    by (auto dest: quotient_of_denom_pos quotient_of_div)
  with assms have p: "0 < p"
    by (simp add: zero_less_divide_iff)
  let ?bp = "bitlen p" and ?bq = "bitlen q"
  have bp1: "1 \<le> ?bp" and bq1: "1 \<le> ?bq"
    using p q bitlen_nonneg [of p] bitlen_nonneg [of q]
      bitlen_eq_zero_iff [of p] bitlen_eq_zero_iff [of q]
    by linarith+
  have pb: "(2::rat) powi (?bp - 1) \<le> of_int p" "of_int p < (2::rat) powi ?bp"
  proof -
    from bitlen_bounds [OF p] have "2 ^ nat (?bp - 1) \<le> p" "p < 2 ^ nat ?bp" by auto
    then have "(of_int (2 ^ nat (?bp - 1)) :: rat) \<le> of_int p"
      and "(of_int p :: rat) < of_int (2 ^ nat ?bp)"
      by (simp_all only: of_int_le_iff of_int_less_iff)
    then show "(2::rat) powi (?bp - 1) \<le> of_int p" "of_int p < (2::rat) powi ?bp"
      using bp1 by (simp_all add: power_int_nonneg_exp)
  qed
  have qb: "(2::rat) powi (?bq - 1) \<le> of_int q" "of_int q < (2::rat) powi ?bq"
  proof -
    from bitlen_bounds [OF q] have "2 ^ nat (?bq - 1) \<le> q" "q < 2 ^ nat ?bq" by auto
    then have "(of_int (2 ^ nat (?bq - 1)) :: rat) \<le> of_int q"
      and "(of_int q :: rat) < of_int (2 ^ nat ?bq)"
      by (simp_all only: of_int_le_iff of_int_less_iff)
    then show "(2::rat) powi (?bq - 1) \<le> of_int q" "of_int q < (2::rat) powi ?bq"
      using bq1 by (simp_all add: power_int_nonneg_exp)
  qed
  let ?d = "?bp - ?bq"
  have qpos: "(0::rat) < of_int q" using q by simp
  have up: "a < 2 powi (?d + 1)"
  proof -
    have "a < 2 powi ?bp / of_int q"
      unfolding a using pb(2) qpos by (simp add: divide_strict_right_mono)
    also have "\<dots> \<le> 2 powi ?bp / 2 powi (?bq - 1)"
      using qb(1) qpos
      by (intro divide_left_mono) (auto intro!: mult_pos_pos simp: zero_less_power_int)
    also have "\<dots> = 2 powi (?d + 1)"
      by (simp add: power_int_diff [symmetric] algebra_simps)
    finally show ?thesis .
  qed
  have low: "2 powi (?d - 1) < a"
  proof -
    have "2 powi (?d - 1) = 2 powi (?bp - 1) / (2::rat) powi ?bq"
      by (simp add: power_int_diff [symmetric] algebra_simps)
    also have "\<dots> < 2 powi (?bp - 1) / of_int q"
      using qb(2) qpos
      by (intro divide_strict_left_mono) (auto intro!: mult_pos_pos simp: zero_less_power_int)
    also have "\<dots> \<le> a"
      unfolding a using pb(1) qpos by (simp add: divide_right_mono)
    finally show ?thesis .
  qed
  show ?thesis
  proof (cases "2 powi ?d \<le> a")
    case True
    then have "floor_log2 a = ?d" by (simp add: floor_log2_def pq Let_def)
    with True up show ?thesis by simp
  next
    case False
    then have "floor_log2 a = ?d - 1" by (simp add: floor_log2_def pq Let_def)
    with False low show ?thesis by simp
  qed
qed

lemma power_int_less_exp: "(2::rat) powi i < 2 powi j \<Longrightarrow> i < j"
  using power_int_increasing [of j i "2::rat"] by (cases "i < j") auto

lemma floor_log2_eqI:
  assumes "2 powi k \<le> a" and "a < 2 powi (k + 1)"
  shows "floor_log2 a = k"
proof -
  have "(0::rat) < 2 powi k" by (simp add: zero_less_power_int)
  then have a: "0 < a" using assms(1) by (rule less_le_trans)
  let ?f = "floor_log2 a"
  from floor_log2_bounds [OF a] have b: "2 powi ?f \<le> a" "a < 2 powi (?f + 1)" by auto
  have "(2::rat) powi k < 2 powi (?f + 1)" using assms(1) b(2) by simp
  then have "k < ?f + 1" by (rule power_int_less_exp)
  moreover have "(2::rat) powi ?f < 2 powi (k + 1)" using assms(2) b(1) by simp
  then have "?f < k + 1" by (rule power_int_less_exp)
  ultimately show ?thesis by simp
qed

lemma round_half_even_of_int: "round_half_even (of_int j) = j"
  by (simp add: round_half_even_def)

text \<open>A double rounds to itself: the rounding changes no value that the arithmetic
  can be given.\<close>

lemma round_double_exact:
  assumes m: "\<bar>m\<bar> < 2 ^ 53" and e: "- 1074 \<le> e" "e \<le> 971"
  shows "round_double (of_int m * 2 powi e) = Num (of_int m * 2 powi e)"
proof (cases "m = 0")
  case True
  then show ?thesis by (simp add: round_double_def)
next
  case False
  define x :: rat where "x = of_int m * 2 powi e"
  define a :: rat where "a = of_int \<bar>m\<bar> * 2 powi e"
  have pos: "(0::rat) < 2 powi e" by (simp add: zero_less_power_int)
  have ax: "\<bar>x\<bar> = a" using pos by (simp add: abs_mult x_def a_def)
  have a0: "0 < a" using False pos by (simp add: a_def)
  have x0: "x \<noteq> 0" using False pos by (simp add: x_def)
  define k where "k = floor_log2 a"
  from floor_log2_bounds [OF a0] have k: "2 powi k \<le> a" by (simp add: k_def)
  have "(of_int \<bar>m\<bar> :: rat) < of_int (2 ^ 53)" using m by (simp only: of_int_less_iff)
  then have "a < 2 ^ 53 * 2 powi e" using pos by (simp add: a_def)
  also have "\<dots> = 2 powi (53 + e)" by (simp add: power_int_add)
  finally have a_up: "a < 2 powi (53 + e)" .
  with k have "(2::rat) powi k < 2 powi (53 + e)" by simp
  then have "k < 53 + e" by (rule power_int_less_exp)
  define E where "E = max (k - 52) (- 1074)"
  from \<open>k < 53 + e\<close> e have E: "E \<le> e" by (simp add: E_def)
  define n where "n = nat (e - E)"
  have "(2::rat) powi e = 2 powi (int n + E)" using E by (simp add: n_def)
  also have "\<dots> = 2 ^ n * 2 powi E" by (simp add: power_int_add)
  finally have pw: "(2::rat) powi e = 2 ^ n * 2 powi E" .
  have posE: "(0::rat) < 2 powi E" by (simp add: zero_less_power_int)
  have scaled: "a / 2 powi E = of_int (\<bar>m\<bar> * 2 ^ n)"
    using posE by (simp add: a_def pw)
  have unscaled: "of_int (\<bar>m\<bar> * 2 ^ n) * (2::rat) powi E = a"
    by (simp add: a_def pw)
  have "(2::rat) powi (53 + e) \<le> 2 powi 1024"
    using e by (intro power_int_increasing) auto
  with a_up have small: "\<not> 2 ^ 1024 \<le> a" by simp
  have sgn: "(if 0 < x then a else - a) = x"
    using pos less_imp_le [OF pos]
    by (cases "0 < m") (simp_all add: zero_less_mult_iff abs_if x_def a_def not_less)
  have "round_double x = Num x"
    unfolding round_double_def Let_def ax k_def [symmetric] E_def [symmetric] scaled
      round_half_even_of_int unscaled
    using x0 small sgn by simp
  then show ?thesis by (simp add: x_def)
qed

lemma round_double_of_int:
  assumes "\<bar>n\<bar> \<le> 2 ^ 53"
  shows "round_double (of_int n) = Num (of_int n)"
proof (cases "\<bar>n\<bar> < 2 ^ 53")
  case True
  then show ?thesis using round_double_exact [of n 0] by simp
next
  case False
  with assms have "n = 2 ^ 53 \<or> n = - (2 ^ 53)" by auto
  then show ?thesis
  proof
    assume "n = 2 ^ 53"
    then show ?thesis using round_double_exact [of "2 ^ 52" 1] by simp
  next
    assume "n = - (2 ^ 53)"
    then show ?thesis using round_double_exact [of "- (2 ^ 52)" 1] by simp
  qed
qed

lemma round_double_numeral:
  "(numeral k :: int) \<le> 2 ^ 53 \<Longrightarrow> round_double (numeral k) = Num (numeral k)"
  "(numeral k :: int) \<le> 2 ^ 53 \<Longrightarrow> round_double (- numeral k) = Num (- numeral k)"
  "round_double 0 = Num 0"
  "round_double 1 = Num 1"
  using round_double_of_int [of "numeral k"] round_double_of_int [of "- numeral k"]
    round_double_of_int [of 0] round_double_of_int [of 1]
  by simp_all

text \<open>Rounding at a given binade, and some roundings worked out: \<open>2^53 + 1\<close> is
  \<open>2^53\<close>; the decimals \<open>0.1\<close>, \<open>0.2\<close>, \<open>0.3\<close>, \<open>0.7\<close> and \<open>0.8\<close> are doubles next to the
  fractions; \<open>0.1 + 0.2\<close> is the double above the one that \<open>0.3\<close> is, and \<open>0.1 + 0.7\<close>
  the double below the one that \<open>0.8\<close> is.\<close>

lemma round_double_at:
  assumes "2 powi k \<le> \<bar>x\<bar>" and "\<bar>x\<bar> < 2 powi (k + 1)"
  shows "round_double x =
           (let e = max (k - 52) (- 1074);
                v = of_int (round_half_even (\<bar>x\<bar> / 2 powi e)) * 2 powi e
            in if 2 ^ 1024 \<le> v then (if 0 < x then PInf else NInf)
               else Num (if 0 < x then v else - v))"
proof -
  have "(0::rat) < 2 powi k" by (simp add: zero_less_power_int)
  then have "0 < \<bar>x\<bar>" using assms(1) by (rule less_le_trans)
  then have "x \<noteq> 0" by simp
  moreover have "floor_log2 \<bar>x\<bar> = k" using assms by (rule floor_log2_eqI)
  ultimately show ?thesis by (simp add: round_double_def)
qed

lemma floor_numeral_div: "\<lfloor>(numeral a :: rat) / numeral b\<rfloor> = numeral a div numeral b"
  using floor_divide_of_int_eq [of "numeral a" "numeral b", where ?'a = rat] by simp

lemma round_double_above_2_53: "round_double 9007199254740993 = Num 9007199254740992"
  by (simp add: round_double_at [of 53] round_half_even_def Let_def floor_numeral_div)

lemma round_double_tenths:
  "round_double (1 / 10) = Num (3602879701896397 / 36028797018963968)"
  "round_double (7 / 10) = Num (3152519739159347 / 4503599627370496)"
  "round_double (8 / 10) = Num (3602879701896397 / 4503599627370496)"
  by (simp_all add: round_double_at [of "- 4"] round_double_at [of "- 1"] round_half_even_def
        Let_def floor_numeral_div)

lemma round_double_of_tenths:
  "round_double (3602879701896397 / 36028797018963968) = Num (3602879701896397 / 36028797018963968)"
  "round_double (3602879701896397 / 18014398509481984) = Num (3602879701896397 / 18014398509481984)"
  "round_double (3152519739159347 / 4503599627370496) = Num (3152519739159347 / 4503599627370496)"
  "round_double (3602879701896397 / 4503599627370496) = Num (3602879701896397 / 4503599627370496)"
  by (simp_all add: round_double_at [of "- 4"] round_double_at [of "- 3"]
        round_double_at [of "- 1"] round_half_even_def Let_def floor_numeral_div)

lemma one_tenth_plus_two_tenths:
  "round_double (2 / 10) = Num (3602879701896397 / 18014398509481984)"
  "round_double (3 / 10) = Num (5404319552844595 / 18014398509481984)"
  "js_add (Num (3602879701896397 / 36028797018963968)) (Num (3602879701896397 / 18014398509481984))
     = Num (5404319552844596 / 18014398509481984)"
  by (simp_all add: round_double_at [of "- 3"] round_double_at [of "- 2"] round_half_even_def
        Let_def floor_numeral_div)

lemma one_tenth_plus_seven_tenths:
  "js_add (Num (3602879701896397 / 36028797018963968)) (Num (3152519739159347 / 4503599627370496))
     = Num (7205759403792793 / 9007199254740992)"
  by (simp add: round_double_at [of "- 1"] round_half_even_def Let_def floor_numeral_div)

subsection \<open>Evaluation on concrete runs\<close>

lemma replicate_numeral: "replicate (numeral k) x = x # replicate (pred_numeral k) x"
  by (simp add: numeral_eq_Suc)

lemmas eval_defs =
  readExpenses_def JSON_expense_def summary_action_def month_of_def parseInt_def is_space_def
  is_digit_def digit_value_def digits_value_def total_of_def check_budget_def readBudgets_def
  console_log_def console_error_def truthy_str_def matches_category_def toLowerCase_def
  lower_char_def upper_case_def lower_case_def js_sub_def round_double_numeral

lemmas entries_defs =
  print_byCategory_def byCategory_of_def byCategory_step_def Object_entries_def
  Object_prototype_names_def is_array_index_def or_zero_def padEnd_def replicate_numeral

subsection \<open>Reading, validation, identifiers\<close>

lemma JSON_number_idem [simp]: "JSON_number (JSON_number n) = JSON_number n"
  by (cases n) simp_all

lemma JSON_expense_idem [simp]: "JSON_expense (JSON_expense e) = JSON_expense e"
  by (simp add: JSON_expense_def)

text \<open>What is read from a file is as \<open>JSON.parse\<close> gives it: reading it back after
  writing it changes nothing.\<close>

lemma readExpenses_parsed: "readExpenses w = (es, w1) \<Longrightarrow> map JSON_expense es = es"
  by (auto simp: readExpenses_def split: json_file.splits)

lemma readExpenses_world:
  "readExpenses w = (es, w1) \<Longrightarrow>
   now w1 = now w \<and> argument_limit w1 = argument_limit w \<and> expenses_json w1 = expenses_json w
   \<and> budgets_json w1 = budgets_json w \<and> files w1 = files w"
  by (auto simp: readExpenses_def console_error_def split: json_file.splits)

lemma validate_each_eq:
  "validate_each es = (if \<exists>e\<in>set es. invalid_expense e then Inl Invalid_expense_data else Inr ())"
  by (induction es) auto

lemma foldl_js_max2_Num:
  "map ToNumber ys = map Num xs \<Longrightarrow> foldl js_max2 (Num x) ys = Num (fold max xs x)"
proof (induction ys arbitrary: xs x)
  case Nil
  then show ?case by simp
next
  case (Cons y ys)
  then obtain q qs where xs: "xs = q # qs" and y: "ToNumber y = Num q"
    and ys: "map ToNumber ys = map Num qs"
    by (cases xs) auto
  from y have "js_max2 (Num x) y = Num (max q x)"
    by (cases y) (auto simp: max.commute)
  with Cons.IH [OF ys] show ?case by (simp add: xs)
qed

lemma Math_max_Num:
  assumes "ToNumber y = Num x" and "map ToNumber ys = map Num xs"
  shows "Math_max y ys = Num (Max (set (x # xs)))"
  using Max.set_eq_fold [of x xs] assms by (simp add: Math_max_def foldl_js_max2_Num)

lemma generateId_Num:
  assumes "map (\<lambda>e. ToNumber (id_e e)) es = map Num ids" and "ids \<noteq> []"
      and "length es \<le> limit"
  shows "generateId limit es = Inr (round_double (Max (set ids) + 1))"
proof -
  from assms obtain e es' q qs where es: "es = e # es'" and ids: "ids = q # qs"
    by (cases es; cases ids) auto
  with assms have "ToNumber (id_e e) = Num q" and "map ToNumber (map id_e es') = map Num qs"
    by (auto simp: comp_def)
  then show ?thesis
    using Math_max_Num [of "id_e e" q "map id_e es'" qs] assms(3)
    by (simp add: es ids)
qed

lemma generateId_RangeError: "limit < length es \<Longrightarrow> generateId limit es = Inl RangeError"
  by (cases es) simp_all

text \<open>An id read from the document is a number or null: as an argument of
  \<open>Math.max\<close> it is a number.\<close>

lemma read_ids_numbers:
  assumes "readExpenses w = (es, w1)"
  shows "\<exists>ids. map (\<lambda>e. ToNumber (id_e e)) es = map Num ids"
proof -
  have "\<exists>q. ToNumber (JSON_number n) = Num q" for n by (cases n) simp_all
  then have "\<exists>ids. map (\<lambda>e. ToNumber (id_e (JSON_expense e))) v = map Num ids" for v
  proof (induction v)
    case Nil
    then show ?case by simp
  next
    case (Cons e v)
    then obtain ids where "map (\<lambda>e. ToNumber (id_e (JSON_expense e))) v = map Num ids" by blast
    moreover obtain q where "ToNumber (id_e (JSON_expense e)) = Num q"
      using Cons.prems [of "id_e e"] by (auto simp: JSON_expense_def)
    ultimately have "map (\<lambda>e. ToNumber (id_e (JSON_expense e))) (e # v) = map Num (q # ids)"
      by simp
    then show ?case by blast
  qed
  with assms show ?thesis
    by (auto simp: readExpenses_def comp_def split: json_file.splits intro: exI [of _ "[]"])
qed

text \<open>
  Claim C2. \<open>writeExpenses\<close> fails with the validation error, and returns no written
  world, as soon as one record has a falsy id, date, description or amount;
  otherwise it replaces the document by the whole list, serialised with an
  indentation of 2.
\<close>

theorem writeExpenses_validates_then_writes:
  "writeExpenses expenses w =
     (if \<exists>e\<in>set expenses. \<not> truthy_num (id_e e) \<or> \<not> truthy_str (date e)
                             \<or> \<not> truthy_str (description e) \<or> \<not> truthy_num (amount e)
      then Inl Invalid_expense_data
      else Inr (w\<lparr>expenses_json := Json expenses 2\<rparr>))"
  using validate_each_eq [of expenses]
  by (simp add: writeExpenses_def invalid_expense_def)

theorem writeExpenses_validates_then_writes_witness:
  "writeExpenses [lunch, coffee\<lparr>amount := Num 0\<rparr>] (world_of [] Missing)
     = Inl Invalid_expense_data
   \<and> writeExpenses [lunch, coffee] (world_of [] Missing)
     = Inr (world_of [lunch, coffee] Missing)"
  using writeExpenses_validates_then_writes
          [of "[lunch, coffee\<lparr>amount := Num 0\<rparr>]" "world_of [] Missing"]
        writeExpenses_validates_then_writes [of "[lunch, coffee]" "world_of [] Missing"]
  by (simp add: truthy_str_def)

text \<open>
  Claim C1, as stated, gives the new expense the greatest existing id plus 1. The
  sum is a sum of doubles: next to the id \<open>2^53\<close> the new id is \<open>2^53\<close> again, not
  \<open>2^53 + 1\<close>.
\<close>

theorem id_above_2_53_counterexample:
  "generateId 100000 [lunch\<lparr>id_e := Num 9007199254740992\<rparr>] = Inr (Num 9007199254740992)
   \<and> add_action ''Tea'' (Num 2) None (world_of [lunch\<lparr>id_e := Num 9007199254740992\<rparr>] Missing) =
       (Inr (),
        \<lparr>expenses_json =
           Json [lunch\<lparr>id_e := Num 9007199254740992\<rparr>,
                 \<lparr>id_e = Num 9007199254740992, date = ''2024-08-15'', description = ''Tea'',
                   amount = Num 2, category = Some ''Other''\<rparr>] 2,
         budgets_json = Missing, files = Map.empty,
         now = \<lparr>year = 2024, month = 8, day = 15\<rparr>, argument_limit = 100000,
         console = [Log [Lit ''# Expense added successfully (ID: '',
                         Raw (Num 9007199254740992), Lit '')'']]\<rparr>)"
  by (simp add: add_action_def readExpenses_def JSON_expense_def Math_max_def newExpense_def
        writeExpenses_def invalid_expense_def truthy_str_def formatDate_def digit_char_def
        console_log_def round_double_above_2_53)

text \<open>
  Claim C1, amended. The ids of the list that \<open>add\<close> reads are numbers, null
  counting as 0. When the list has more records than a call can take arguments,
  \<open>add\<close> fails with a RangeError and writes nothing. Otherwise the id of the new
  expense is 1 when the list is empty, and else the double nearest to the greatest
  existing id plus 1, which is that sum itself when the greatest id is an integer
  below \<open>2^53\<close> in size; \<open>add\<close> writes the list with the new record of that id
  appended, and prints the id, unless a record fails the test of \<open>writeExpenses\<close>.
\<close>

theorem add_assigns_generated_id:
  assumes "readExpenses w = (expenses, w1)"
      and "map (\<lambda>e. ToNumber (id_e e)) expenses = map Num ids"
  shows "add_action d a c w =
           (if argument_limit w < length expenses then (Inl RangeError, w1)
            else
              let new_id = (if ids = [] then Num 1 else round_double (Max (set ids) + 1));
                  e = \<lparr>id_e = new_id, date = formatDate (now w), description = d, amount = a,
                       category = Some (or_str c ''Other'')\<rparr>
              in if (\<exists>x\<in>set expenses. invalid_expense x) \<or> invalid_expense e
                 then (Inl Invalid_expense_data, w1)
                 else (Inr (),
                       w1\<lparr>expenses_json := Json (expenses @ [e]) 2,
                          console := console w1 @
                            [Log [Lit ''# Expense added successfully (ID: '', Raw new_id,
                                  Lit '')'']]\<rparr>))
         \<and> (\<forall>n. Max (set ids) = of_int n \<and> \<bar>n\<bar> < 2 ^ 53 \<longrightarrow>
               round_double (Max (set ids) + 1) = Num (Max (set ids) + 1))"
proof (intro conjI allI impI)
  from readExpenses_world [OF assms(1)]
  have n: "now w1 = now w" and l: "argument_limit w1 = argument_limit w" by simp_all
  show "add_action d a c w =
           (if argument_limit w < length expenses then (Inl RangeError, w1)
            else
              let new_id = (if ids = [] then Num 1 else round_double (Max (set ids) + 1));
                  e = \<lparr>id_e = new_id, date = formatDate (now w), description = d, amount = a,
                       category = Some (or_str c ''Other'')\<rparr>
              in if (\<exists>x\<in>set expenses. invalid_expense x) \<or> invalid_expense e
                 then (Inl Invalid_expense_data, w1)
                 else (Inr (),
                       w1\<lparr>expenses_json := Json (expenses @ [e]) 2,
                          console := console w1 @
                            [Log [Lit ''# Expense added successfully (ID: '', Raw new_id,
                                  Lit '')'']]\<rparr>))"
  proof (cases "argument_limit w < length expenses")
    case True
    with assms(1) l show ?thesis
      by (simp add: add_action_def generateId_RangeError)
  next
    case False
    have g: "generateId (argument_limit w1) expenses =
               Inr (if ids = [] then Num 1 else round_double (Max (set ids) + 1))"
    proof (cases "ids = []")
      case True
      with assms(2) show ?thesis by simp
    next
      case ne: False
      with assms(2) False l show ?thesis by (simp add: generateId_Num)
    qed
    from False assms(1) g n show ?thesis
      by (simp add: add_action_def newExpense_def writeExpenses_def validate_each_eq
            console_log_def Let_def)
  qed
next
  fix n :: int
  assume "Max (set ids) = of_int n \<and> \<bar>n\<bar> < 2 ^ 53"
  then have m: "Max (set ids) = of_int n" and "\<bar>n + 1\<bar> \<le> 2 ^ 53" by auto
  then show "round_double (Max (set ids) + 1) = Num (Max (set ids) + 1)"
    using round_double_of_int [of "n + 1"] by simp
qed

theorem add_assigns_generated_id_witness:
  "readExpenses (world_of [lunch, rent] Missing) = ([lunch, rent], world_of [lunch, rent] Missing)
   \<and> map (\<lambda>e. ToNumber (id_e e)) [lunch, rent] = map Num [1, 3]
   \<and> add_action ''Tea'' (Num 2) None (world_of [lunch, rent] Missing) =
       (Inr (),
        \<lparr>expenses_json =
           Json [lunch, rent,
                 \<lparr>id_e = Num 4, date = ''2024-08-15'', description = ''Tea'', amount = Num 2,
                   category = Some ''Other''\<rparr>] 2,
         budgets_json = Missing, files = Map.empty,
         now = \<lparr>year = 2024, month = 8, day = 15\<rparr>, argument_limit = 100000,
         console = [Log [Lit ''# Expense added successfully (ID: '', Raw (Num 4), Lit '')'']]\<rparr>)"
  using add_assigns_generated_id
          [of "world_of [lunch, rent] Missing" "[lunch, rent]" "world_of [lunch, rent] Missing"
              "[1, 3]" "''Tea''" "Num 2" None]
  by (simp add: readExpenses_def JSON_expense_def invalid_expense_def truthy_str_def
        formatDate_def digit_char_def round_double_numeral Let_def)

text \<open>Beyond the bound on the arguments of a call \<open>add\<close> writes nothing.\<close>

lemma add_beyond_argument_limit:
  "readExpenses w = (expenses, w1) \<Longrightarrow> argument_limit w < length expenses \<Longrightarrow>
   add_action d a c w = (Inl RangeError, w1)"
  using readExpenses_world [of w expenses w1]
  by (simp add: add_action_def generateId_RangeError)

lemma formatDate_truthy: "truthy_str (formatDate t)"
  by (simp add: formatDate_def truthy_str_def)

lemma add_action_eq:
  assumes "readExpenses w = (expenses, w1)"
  shows "add_action d a c w =
           (case generateId (argument_limit w) expenses of
              Inl err \<Rightarrow> (Inl err, w1)
            | Inr new_id \<Rightarrow>
                (let e = \<lparr>id_e = new_id, date = formatDate (now w), description = d,
                          amount = a, category = Some (or_str c ''Other'')\<rparr>
                 in if (\<exists>x\<in>set expenses. invalid_expense x) \<or> \<not> truthy_num new_id \<or> d = []
                       \<or> \<not> truthy_num a
                    then (Inl Invalid_expense_data, w1)
                    else (Inr (),
                          w1\<lparr>expenses_json := Json (expenses @ [e]) 2,
                             console := console w1 @
                               [Log [Lit ''# Expense added successfully (ID: '', Raw new_id,
                                     Lit '')'']]\<rparr>)))"
  using assms readExpenses_world [OF assms] formatDate_truthy [of "now w"]
  by (simp add: add_action_def newExpense_def writeExpenses_def validate_each_eq
        invalid_expense_def console_log_def Let_def truthy_str_def split: sum.splits)

text \<open>
  Claim C9, as stated, covers every negative parsed amount. \<open>-a -1e999\<close> parses to
  the negative infinity: \<open>add\<close> accepts it, and what is persisted is \<open>null\<close>.
\<close>

theorem add_negative_infinity_counterexample:
  "add_action ''Refund'' NInf None (world_of [lunch, coffee] Missing) =
     (Inr (),
      \<lparr>expenses_json =
         Json [lunch, coffee,
               \<lparr>id_e = Num 3, date = ''2024-08-15'', description = ''Refund'', amount = NInf,
                 category = Some ''Other''\<rparr>] 2,
       budgets_json = Missing, files = Map.empty,
       now = \<lparr>year = 2024, month = 8, day = 15\<rparr>, argument_limit = 100000,
       console = [Log [Lit ''# Expense added successfully (ID: '', Raw (Num 3), Lit '')'']]\<rparr>)
   \<and> map amount (fst (readExpenses (snd (add_action ''Refund'' NInf None
                                            (world_of [lunch, coffee] Missing)))))
       = [Num 20, Num 5, Null]"
  by (simp add: add_action_def readExpenses_def JSON_expense_def Math_max_def newExpense_def
        writeExpenses_def invalid_expense_def truthy_str_def formatDate_def digit_char_def
        console_log_def round_double_numeral)

text \<open>
  Claim C9, amended. Let the parsed amount of an \<open>add\<close> invocation be a finite
  negative number \<open>q\<close>. \<open>validateAmount\<close> would reject it, but \<open>add\<close> makes no test of
  the sign: it fails or succeeds exactly as it does for any other amount that is
  not 0. It succeeds when the list is within the bound of \<open>generateId\<close>, every
  record read passes the test of \<open>writeExpenses\<close>, the generated id is neither 0
  nor NaN and the description is not empty; the record is then written with the
  amount \<open>q\<close>, and read back with the amount \<open>q\<close>.
\<close>

theorem add_persists_negative_amount:
  assumes "readExpenses w = (expenses, w1)" and "q < 0"
  shows "validateAmount (Num q) = Inl Amount_must_be_positive
       \<and> add_action d (Num q) c w =
           (case generateId (argument_limit w) expenses of
              Inl err \<Rightarrow> (Inl err, w1)
            | Inr new_id \<Rightarrow>
                if (\<exists>x\<in>set expenses. invalid_expense x) \<or> \<not> truthy_num new_id \<or> d = []
                then (Inl Invalid_expense_data, w1)
                else (Inr (),
                      w1\<lparr>expenses_json :=
                           Json (expenses @
                                 [\<lparr>id_e = new_id, date = formatDate (now w), description = d,
                                   amount = Num q, category = Some (or_str c ''Other'')\<rparr>]) 2,
                         console := console w1 @
                           [Log [Lit ''# Expense added successfully (ID: '', Raw new_id,
                                 Lit '')'']]\<rparr>))
       \<and> (fst (add_action d (Num q) c w) = Inr () \<longrightarrow>
            map amount (fst (readExpenses (snd (add_action d (Num q) c w))))
              = map amount expenses @ [Num q])
       \<and> (\<forall>p. p \<noteq> 0 \<longrightarrow> fst (add_action d (Num p) c w) = fst (add_action d (Num q) c w))"
proof (intro conjI allI impI)
  show "validateAmount (Num q) = Inl Amount_must_be_positive"
    using assms(2) by (simp add: validateAmount_def isNaN_def js_le_def)
next
  show eq: "add_action d (Num q) c w =
           (case generateId (argument_limit w) expenses of
              Inl err \<Rightarrow> (Inl err, w1)
            | Inr new_id \<Rightarrow>
                if (\<exists>x\<in>set expenses. invalid_expense x) \<or> \<not> truthy_num new_id \<or> d = []
                then (Inl Invalid_expense_data, w1)
                else (Inr (),
                      w1\<lparr>expenses_json :=
                           Json (expenses @
                                 [\<lparr>id_e = new_id, date = formatDate (now w), description = d,
                                   amount = Num q, category = Some (or_str c ''Other'')\<rparr>]) 2,
                         console := console w1 @
                           [Log [Lit ''# Expense added successfully (ID: '', Raw new_id,
                                 Lit '')'']]\<rparr>))"
    using assms(2) by (simp add: add_action_eq [OF assms(1)] Let_def split: sum.splits)
next
  assume ok: "fst (add_action d (Num q) c w) = Inr ()"
  from readExpenses_parsed [OF assms(1)] have canon: "map JSON_expense expenses = expenses" .
  from ok assms(2) show "map amount (fst (readExpenses (snd (add_action d (Num q) c w))))
                           = map amount expenses @ [Num q]"
    by (auto simp: add_action_eq [OF assms(1)] Let_def readExpenses_def canon JSON_expense_def
             split: sum.splits if_splits)
next
  fix p :: rat
  assume "p \<noteq> 0"
  with assms(2) show "fst (add_action d (Num p) c w) = fst (add_action d (Num q) c w)"
    by (simp add: add_action_eq [OF assms(1)] Let_def split: sum.splits)
qed

theorem add_persists_negative_amount_witness:
  "readExpenses (world_of [lunch, coffee] Missing)
     = ([lunch, coffee], world_of [lunch, coffee] Missing)
   \<and> (- 5 :: rat) < 0
   \<and> validateAmount (Num (- 5)) = Inl Amount_must_be_positive
   \<and> add_action ''Refund'' (Num (- 5)) None (world_of [lunch, coffee] Missing) =
       (Inr (),
        \<lparr>expenses_json =
           Json [lunch, coffee,
                 \<lparr>id_e = Num 3, date = ''2024-08-15'', description = ''Refund'',
                   amount = Num (- 5), category = Some ''Other''\<rparr>] 2,
         budgets_json = Missing, files = Map.empty,
         now = \<lparr>year = 2024, month = 8, day = 15\<rparr>, argument_limit = 100000,
         console = [Log [Lit ''# Expense added successfully (ID: '', Raw (Num 3), Lit '')'']]\<rparr>)
   \<and> map amount (fst (readExpenses (snd (add_action ''Refund'' (Num (- 5)) None
                                            (world_of [lunch, coffee] Missing)))))
       = [Num 20, Num 5, Num (- 5)]"
  using add_persists_negative_amount
          [of "world_of [lunch, coffee] Missing" "[lunch, coffee]"
              "world_of [lunch, coffee] Missing" "- 5" "''Refund''" None]
  by (simp add: readExpenses_def JSON_expense_def Math_max_def invalid_expense_def
        truthy_str_def formatDate_def digit_char_def round_double_numeral)

subsection \<open>Update, delete, budgets: what is left alone\<close>

lemma findIndex_None: "findIndex p xs = None \<longleftrightarrow> (\<forall>x\<in>set xs. \<not> p x)"
  by (induction xs) auto

lemma findIndex_first:
  "i < length xs \<Longrightarrow> p (xs ! i) \<Longrightarrow> \<forall>j<i. \<not> p (xs ! j) \<Longrightarrow> findIndex p xs = Some i"
proof (induction xs arbitrary: i)
  case Nil
  then show ?case by simp
next
  case (Cons x xs)
  show ?case
  proof (cases i)
    case 0
    with Cons.prems show ?thesis by simp
  next
    case (Suc k)
    with Cons.prems have "\<not> p x" by auto
    moreover from Suc Cons.prems have "findIndex p xs = Some k"
      by (intro Cons.IH) auto
    ultimately show ?thesis by (simp add: Suc)
  qed
qed

lemma assign_fields_frame:
  "id_e (assign_fields d a c e) = id_e e"
  "date (assign_fields d a c e) = date e"
  "d = None \<Longrightarrow> description (assign_fields d a c e) = description e"
  "a = None \<Longrightarrow> amount (assign_fields d a c e) = amount e"
  "c = None \<Longrightarrow> category (assign_fields d a c e) = category e"
  by (simp_all add: assign_fields_def Let_def split: option.splits)

lemma readExpenses_nonempty:
  assumes "readExpenses w = (es, w1)" and "es \<noteq> []"
  shows "w1 = w" and "\<exists>doc n. expenses_json w = Json doc n"
  using assms by (auto simp: readExpenses_def split: json_file.splits)

lemma readExpenses_written:
  "expenses_json w = Json doc n \<Longrightarrow> readExpenses w = (map JSON_expense doc, w)"
  by (simp add: readExpenses_def)

lemma parsed_nth:
  assumes "map JSON_expense es = es" and "i < length es"
  shows "JSON_number (id_e (es ! i)) = id_e (es ! i)"
    and "JSON_number (amount (es ! i)) = amount (es ! i)"
proof -
  from assms have "JSON_expense (es ! i) = es ! i" by (metis nth_map)
  then have "id_e (JSON_expense (es ! i)) = id_e (es ! i)"
    and "amount (JSON_expense (es ! i)) = amount (es ! i)" by simp_all
  then show "JSON_number (id_e (es ! i)) = id_e (es ! i)"
    and "JSON_number (amount (es ! i)) = amount (es ! i)"
    by (simp_all add: JSON_expense_def)
qed

text \<open>
  Claim C3. Let the list read from the store hold a record with the given id, the
  first of them at position \<open>i\<close>. After \<open>update\<close> the store is readable and has the
  same number of records; every record at another position is as before; the
  record at \<open>i\<close> keeps its id and date, and keeps its description, amount and
  category whenever the matching option was omitted. (This holds whether or not
  the write succeeds.)
\<close>

theorem update_changes_only_supplied_fields:
  assumes store: "readExpenses w = (expenses, w1)"
      and first: "i < length expenses" "strict_eq (id_e (expenses ! i)) opt_id"
                 "\<forall>j<i. \<not> strict_eq (id_e (expenses ! j)) opt_id"
      and run: "update_action opt_id d a c w = (r, w')"
  shows "\<exists>doc n' expenses'. expenses_json w' = Json doc n'
           \<and> readExpenses w' = (expenses', w')
           \<and> length expenses' = length expenses
           \<and> (\<forall>j<length expenses. j \<noteq> i \<longrightarrow> expenses' ! j = expenses ! j)
           \<and> id_e (expenses' ! i) = id_e (expenses ! i)
           \<and> date (expenses' ! i) = date (expenses ! i)
           \<and> (d = None \<longrightarrow> description (expenses' ! i) = description (expenses ! i))
           \<and> (a = None \<longrightarrow> amount (expenses' ! i) = amount (expenses ! i))
           \<and> (c = None \<longrightarrow> category (expenses' ! i) = category (expenses ! i))"
proof -
  have found: "findIndex (\<lambda>e. strict_eq (id_e e) opt_id) expenses = Some i"
    using first by (intro findIndex_first) auto
  from first(1) have ne: "expenses \<noteq> []" by auto
  from readExpenses_nonempty [OF store ne] obtain doc n
    where w1: "w1 = w" and doc: "expenses_json w = Json doc n" by blast
  from readExpenses_parsed [OF store] have canon: "map JSON_expense expenses = expenses" .
  let ?e = "assign_fields d a c (expenses ! i)"
  let ?new = "expenses[i := ?e]"
  show ?thesis
  proof (cases "writeExpenses ?new w")
    case (Inl err)
    with store found run w1 have "w' = w"
      by (simp add: update_action_def)
    with store w1 doc show ?thesis by auto
  next
    case (Inr w2)
    then have "expenses_json w2 = Json ?new 2"
      by (auto simp: writeExpenses_def split: sum.splits)
    with Inr store found run w1 have written: "expenses_json w' = Json ?new 2"
      by (auto simp: update_action_def console_log_def)
    have "map JSON_expense ?new = expenses[i := JSON_expense ?e]"
      by (simp add: map_update canon)
    with readExpenses_written [OF written]
    have reread: "readExpenses w' = (expenses[i := JSON_expense ?e], w')" by simp
    have "id_e (JSON_expense ?e) = id_e (expenses ! i)"
      and "date (JSON_expense ?e) = date (expenses ! i)"
      and "d = None \<longrightarrow> description (JSON_expense ?e) = description (expenses ! i)"
      and "a = None \<longrightarrow> amount (JSON_expense ?e) = amount (expenses ! i)"
      and "c = None \<longrightarrow> category (JSON_expense ?e) = category (expenses ! i)"
      using parsed_nth [OF canon first(1)]
      by (simp_all add: JSON_expense_def assign_fields_frame)
    with written reread first(1) show ?thesis by simp
  qed
qed

theorem update_changes_only_supplied_fields_witness:
  "readExpenses (world_of [lunch, coffee] Missing)
     = ([lunch, coffee], world_of [lunch, coffee] Missing)
   \<and> 1 < length [lunch, coffee]
   \<and> strict_eq (id_e ([lunch, coffee] ! 1)) (Num 2)
   \<and> \<not> strict_eq (id_e ([lunch, coffee] ! 0)) (Num 2)
   \<and> (\<exists>expenses'.
         fst (readExpenses (snd (update_action (Num 2) None (Some (Num 7)) None
                                   (world_of [lunch, coffee] Missing)))) = expenses'
         \<and> length expenses' = 2
         \<and> expenses' ! 0 = lunch
         \<and> description (expenses' ! 1) = ''Coffee''
         \<and> category (expenses' ! 1) = None)"
  using update_changes_only_supplied_fields
    [of "world_of [lunch, coffee] Missing" "[lunch, coffee]" "world_of [lunch, coffee] Missing"
        1 "Num 2" None "Some (Num 7)" None
        "fst (update_action (Num 2) None (Some (Num 7)) None (world_of [lunch, coffee] Missing))"
        "snd (update_action (Num 2) None (Some (Num 7)) None (world_of [lunch, coffee] Missing))"]
  by (auto simp: readExpenses_def JSON_expense_def)

text \<open>What \<open>update\<close> stores: the record at the first position found, with each
  supplied (truthy) field replaced, when every record then passes the test of
  \<open>writeExpenses\<close>.\<close>

lemma update_action_eq:
  assumes "readExpenses w = (expenses, w1)"
      and "findIndex (\<lambda>e. strict_eq (id_e e) opt_id) expenses = Some i"
  shows "update_action opt_id d a c w =
           (let new = expenses[i := assign_fields d a c (expenses ! i)]
            in if \<exists>x\<in>set new. invalid_expense x then (Inl Invalid_expense_data, w1)
               else (Inr (), w1\<lparr>expenses_json := Json new 2,
                                console := console w1 @
                                  [Log [Lit ''# Expense updated successfully'']]\<rparr>))"
  using assms
  by (simp add: update_action_def writeExpenses_def validate_each_eq console_log_def Let_def)

text \<open>
  Claim C6. When no record read from the store has the given id, \<open>delete\<close> returns
  normally, changes no file, and prints the single line
  \<open># Expense with ID <id> not found\<close>.
\<close>

theorem delete_unknown_id_leaves_store:
  assumes "readExpenses w = (expenses, w1)"
      and "\<forall>e\<in>set expenses. \<not> strict_eq (id_e e) opt_id"
  shows "delete_action opt_id w =
           (Inr (), w1\<lparr>console := console w1 @
                        [Log [Lit ''# Expense with ID '', Raw opt_id, Lit '' not found'']]\<rparr>)
         \<and> expenses_json w1 = expenses_json w \<and> budgets_json w1 = budgets_json w
         \<and> files w1 = files w"
proof -
  from assms(2) have "findIndex (\<lambda>e. strict_eq (id_e e) opt_id) expenses = None"
    by (simp add: findIndex_None)
  with assms(1) readExpenses_world [OF assms(1)] show ?thesis
    by (simp add: delete_action_def console_log_def not_found_def)
qed

theorem delete_unknown_id_leaves_store_witness:
  "readExpenses (world_of [lunch, coffee] Missing)
     = ([lunch, coffee], world_of [lunch, coffee] Missing)
   \<and> \<not> strict_eq (id_e lunch) (Num 999) \<and> \<not> strict_eq (id_e coffee) (Num 999)
   \<and> delete_action (Num 999) (world_of [lunch, coffee] Missing) =
       (Inr (), \<lparr>expenses_json = Json [lunch, coffee] 2, budgets_json = Missing,
                 files = Map.empty, now = \<lparr>year = 2024, month = 8, day = 15\<rparr>,
                 argument_limit = 100000,
                 console = [Log [Lit ''# Expense with ID '', Raw (Num 999), Lit '' not found'']]\<rparr>)"
  using delete_unknown_id_leaves_store
          [of "world_of [lunch, coffee] Missing" "[lunch, coffee]"
              "world_of [lunch, coffee] Missing" "Num 999"]
  by (simp add: readExpenses_def JSON_expense_def)

text \<open>What \<open>delete\<close> does to a known id: the first record that has it is taken out.\<close>

lemma delete_action_eq:
  assumes "readExpenses w = (expenses, w1)"
      and "findIndex (\<lambda>e. strict_eq (id_e e) opt_id) expenses = Some i"
  shows "delete_action opt_id w =
           (let new = take i expenses @ drop (Suc i) expenses
            in if \<exists>x\<in>set new. invalid_expense x then (Inl Invalid_expense_data, w1)
               else (Inr (), w1\<lparr>expenses_json := Json new 2,
                                console := console w1 @
                                  [Log [Lit ''# Expense deleted successfully'']]\<rparr>))"
  using assms
  by (simp add: delete_action_def splice1_def writeExpenses_def validate_each_eq
        console_log_def Let_def)

lemma readBudgets_parsed:
  "readBudgets Map.empty w = (B, w1) \<Longrightarrow> map_option JSON_number (B k) = B k"
  by (auto simp: readBudgets_def option.map_comp comp_def split: json_file.splits)

lemma readBudgets_world:
  "readBudgets B0 w = (B, w1) \<Longrightarrow>
   budgets_json w1 = budgets_json w \<and> expenses_json w1 = expenses_json w \<and> files w1 = files w
   \<and> now w1 = now w \<and> argument_limit w1 = argument_limit w"
  by (auto simp: readBudgets_def console_error_def split: json_file.splits)

lemma JSON_number_map_upd:
  "(\<lambda>k. map_option JSON_number ((B(m \<mapsto> a)) k)) =
     (\<lambda>k. map_option JSON_number (B k))(m \<mapsto> JSON_number a)"
  by (auto simp: fun_eq_iff)

lemma sample_budgets_read:
  "readBudgets Map.empty (world_of [] (Json [Num 7 \<mapsto> Num 300, Num 8 \<mapsto> Num 400] 2))
     = ([Num 7 \<mapsto> Num 300, Num 8 \<mapsto> Num 400],
        world_of [] (Json [Num 7 \<mapsto> Num 300, Num 8 \<mapsto> Num 400] 2))"
  by (simp add: readBudgets_def fun_eq_iff)

text \<open>
  Claim C10. \<open>set-budget\<close> for month \<open>m\<close>, on the budget mapping it reads, writes a
  mapping that gives \<open>m\<close> the new amount and every other month what it had; read
  again, every other month has what it had.
\<close>

theorem set_budget_keeps_other_months:
  assumes "readBudgets Map.empty w = (B, w1)"
  shows "\<exists>B'. budgets_json (snd (set_budget_action m a w)) = Json B' 2
           \<and> B' m = Some a \<and> (\<forall>m'. m' \<noteq> m \<longrightarrow> B' m' = B m')
           \<and> (\<forall>m'. m' \<noteq> m \<longrightarrow>
                 fst (readBudgets Map.empty (snd (set_budget_action m a w))) m' = B m')"
  using assms readBudgets_parsed [OF assms]
  by (simp add: set_budget_action_def writeBudgets_def console_log_def readBudgets_def)

theorem set_budget_keeps_other_months_witness:
  "readBudgets Map.empty (world_of [] (Json [Num 7 \<mapsto> Num 300, Num 8 \<mapsto> Num 400] 2))
     = ([Num 7 \<mapsto> Num 300, Num 8 \<mapsto> Num 400],
        world_of [] (Json [Num 7 \<mapsto> Num 300, Num 8 \<mapsto> Num 400] 2))
   \<and> (\<exists>B'. budgets_json (snd (set_budget_action (Num 8) (Num 500)
                 (world_of [] (Json [Num 7 \<mapsto> Num 300, Num 8 \<mapsto> Num 400] 2)))) = Json B' 2
          \<and> B' (Num 8) = Some (Num 500) \<and> B' (Num 7) = Some (Num 300))
   \<and> fst (readBudgets Map.empty (snd (set_budget_action (Num 8) (Num 500)
            (world_of [] (Json [Num 7 \<mapsto> Num 300, Num 8 \<mapsto> Num 400] 2))))) (Num 7)
       = Some (Num 300)"
  using set_budget_keeps_other_months
    [of "world_of [] (Json [Num 7 \<mapsto> Num 300, Num 8 \<mapsto> Num 400] 2)"
        "[Num 7 \<mapsto> Num 300, Num 8 \<mapsto> Num 400]"
        "world_of [] (Json [Num 7 \<mapsto> Num 300, Num 8 \<mapsto> Num 400] 2)" "Num 8" "Num 500"]
    sample_budgets_read
  by auto

text \<open>The whole effect of \<open>set-budget\<close>.\<close>

lemma set_budget_action_eq:
  assumes "readBudgets Map.empty w = (B, w1)"
  shows "set_budget_action m a w =
           (Inr (), w1\<lparr>budgets_json := Json (B(m \<mapsto> a)) 2,
                       console := console w1 @
                         [Log [Lit ''# Budget for '', Month_name m, Lit '' set to $'', Raw a]]\<rparr>)"
  using assms by (simp add: set_budget_action_def writeBudgets_def console_log_def)

subsection \<open>Export\<close>

lemma foldl_append_concat: "foldl (\<lambda>acc e. acc @ f e) h es = h @ concat (map f es)"
  by (induction es arbitrary: h) simp_all

text \<open>
  Claim C8. The text written by \<open>export\<close> is the header row
  \<open>ID,Date,Category,Description,Amount\<close> followed by one row per expense read from
  the store, in store order. A row is the id, the date, the category (\<open>Other\<close> when
  the record has none), the description between two double quotes and otherwise
  as it is, and the amount, separated by commas and ended by a line feed.
\<close>

theorem export_writes_header_and_rows:
  assumes "readExpenses w = (expenses, w1)"
  shows "files (snd (export_action f w)) (or_str f ''expenses.csv'') =
           Some (concat
                  ([Lit (''ID,Date,Category,Description,Amount'' @ [CHR 0x0A])]
                   # map (\<lambda>e. [Raw (id_e e), Lit '','', Lit (date e), Lit '','',
                                 Lit (case category e of
                                        None \<Rightarrow> ''Other''
                                      | Some s \<Rightarrow> if s = [] then ''Other'' else s),
                                 Lit ('','' @ [CHR 0x22]), Lit (description e),
                                 Lit ([CHR 0x22] @ '',''), Raw (amount e), Lit [CHR 0x0A]])
                       expenses))
         \<and> length ([Lit (''ID,Date,Category,Description,Amount'' @ [CHR 0x0A])]
                   # map csv_row expenses) = length expenses + 1"
proof -
  have row: "map csv_row expenses = map (\<lambda>e. [Raw (id_e e), Lit '','', Lit (date e), Lit '','',
                                 Lit (case category e of
                                        None \<Rightarrow> ''Other''
                                      | Some s \<Rightarrow> if s = [] then ''Other'' else s),
                                 Lit ('','' @ [CHR 0x22]), Lit (description e),
                                 Lit ([CHR 0x22] @ '',''), Raw (amount e), Lit [CHR 0x0A]])
                          expenses"
    by (simp add: csv_row_def truthy_str_def split: option.splits)
  show ?thesis
    using assms
    by (simp add: export_action_def console_log_def foldl_append_concat
                  csv_header_def row Let_def)
qed

theorem export_writes_header_and_rows_witness:
  "readExpenses (world_of [lunch, coffee] Missing)
     = ([lunch, coffee], world_of [lunch, coffee] Missing)
   \<and> files (snd (export_action None (world_of [lunch, coffee] Missing))) ''expenses.csv'' =
       Some [Lit (''ID,Date,Category,Description,Amount'' @ [CHR 0x0A]),
             Raw (Num 1), Lit '','', Lit ''2024-08-01'', Lit '','', Lit ''Food'',
             Lit ('','' @ [CHR 0x22]), Lit ''Lunch'', Lit ([CHR 0x22] @ '',''), Raw (Num 20),
             Lit [CHR 0x0A],
             Raw (Num 2), Lit '','', Lit ''2024-08-02'', Lit '','', Lit ''Other'',
             Lit ('','' @ [CHR 0x22]), Lit ''Coffee'', Lit ([CHR 0x22] @ '',''), Raw (Num 5),
             Lit [CHR 0x0A]]"
  using export_writes_header_and_rows
          [of "world_of [lunch, coffee] Missing" "[lunch, coffee]"
              "world_of [lunch, coffee] Missing" None]
  by (simp add: readExpenses_def JSON_expense_def)

subsection \<open>Summary\<close>

text \<open>The sum of \<open>summary\<close> adds doubles from left to right. On integers whose sizes
  add up to \<open>2^53\<close> at most it is the exact sum.\<close>

lemma foldl_js_add_integers:
  assumes "map amount es = map (\<lambda>n. Num (of_int n)) ns"
      and "\<bar>k\<bar> + (\<Sum>n\<leftarrow>ns. \<bar>n\<bar>) \<le> 2 ^ 53"
  shows "foldl (\<lambda>sum e. js_add sum (amount e)) (Num (of_int k)) es
           = Num (of_int (k + sum_list ns))"
  using assms
proof (induction es arbitrary: ns k)
  case Nil
  then show ?case by simp
next
  case (Cons e es)
  then obtain n ns' where ns: "ns = n # ns'" and e: "amount e = Num (of_int n)"
    and es: "map amount es = map (\<lambda>n. Num (of_int n)) ns'"
    by (cases ns) auto
  have nonneg: "0 \<le> (\<Sum>n\<leftarrow>ns'. \<bar>n\<bar>)" by (rule sum_list_nonneg) auto
  with Cons.prems(2) have small: "\<bar>k + n\<bar> \<le> 2 ^ 53" by (simp add: ns)
  have step: "js_add (Num (of_int k)) (amount e) = Num (of_int (k + n))"
    using round_double_of_int [OF small] by (simp add: e)
  have "\<bar>k + n\<bar> + (\<Sum>n\<leftarrow>ns'. \<bar>n\<bar>) \<le> 2 ^ 53"
    using Cons.prems(2) by (simp add: ns)
  from Cons.IH [OF es this] show ?case
    by (simp add: step ns add.assoc)
qed

lemma total_of_integers:
  assumes "map amount es = map (\<lambda>n. Num (of_int n)) ns" and "(\<Sum>n\<leftarrow>ns. \<bar>n\<bar>) \<le> 2 ^ 53"
  shows "total_of es = Num (of_int (sum_list ns))"
  using foldl_js_add_integers [of es ns 0] assms by (simp add: total_of_def)

text \<open>On the doubles that \<open>0.1\<close> and \<open>0.2\<close> are, the sum is not the double that \<open>0.3\<close>
  is.\<close>

lemma total_of_tenths:
  "total_of [lunch\<lparr>amount := Num (3602879701896397 / 36028797018963968)\<rparr>,
             coffee\<lparr>amount := Num (3602879701896397 / 18014398509481984)\<rparr>]
     = Num (5404319552844596 / 18014398509481984)"
  using one_tenth_plus_two_tenths(3)
  by (simp add: total_of_def round_double_of_tenths)

text \<open>The lines of the budget check, when the budget file is absent or parseable.\<close>

lemma check_budget_eq:
  assumes "readBudgets Map.empty w = (B, w)" and "budgets_json w0 = budgets_json w"
  shows "check_budget m tot w0 =
           w0\<lparr>console := console w0 @
                (case B m of
                   None \<Rightarrow> []
                 | Some budget \<Rightarrow>
                     if truthy_num budget then
                       (if js_ge tot budget then
                          [Log [Lit (''# WARNING: You'' @ [CHR 0x27] @ ''ve exceeded your ''),
                                Month_name m, Lit '' budget of $'', Raw budget, Lit '' by $'',
                                Fixed (js_sub tot budget) 2]]
                        else
                          [Log [Lit ''# Remaining budget for '', Month_name m, Lit '': $'',
                                Fixed (js_sub budget tot) 2]])
                     else [])\<rparr>"
proof (cases "budgets_json w")
  case Missing
  with assms show ?thesis
    by (auto simp: check_budget_def readBudgets_def)
next
  case Unparseable
  with assms(1) have "console w @ [Error [Lit ''Error reading budgets:'', Lit '' '', Err_message]]
                        = console w"
    by (auto simp: readBudgets_def console_error_def dest: arg_cong [where f = console])
  then show ?thesis by simp
next
  case (Json v n)
  with assms show ?thesis
    by (auto simp: check_budget_def readBudgets_def console_log_def split: option.splits)
qed

lemma check_budget_console:
  "\<exists>ls. length ls \<le> 1 \<and> check_budget m t w = w\<lparr>console := console w @ ls\<rparr>"
proof (cases "budgets_json w")
  case Missing
  then have "check_budget m t w = w\<lparr>console := console w @ []\<rparr>"
    by (simp add: check_budget_def readBudgets_def)
  then show ?thesis by (intro exI [of _ "[]"]) simp
next
  case Unparseable
  then have "check_budget m t w =
               w\<lparr>console := console w @
                    [Error [Lit ''Error reading budgets:'', Lit '' '', Err_message]]\<rparr>"
    by (simp add: check_budget_def readBudgets_def console_error_def)
  then show ?thesis by (intro exI [of _ "[Error _]"]) simp
next
  case (Json v n)
  show ?thesis
  proof (cases "v m")
    case None
    with Json have "check_budget m t w = w\<lparr>console := console w @ []\<rparr>"
      by (simp add: check_budget_def readBudgets_def)
    then show ?thesis by (intro exI [of _ "[]"]) simp
  next
    case (Some z)
    show ?thesis
    proof (cases "truthy_num (JSON_number z)")
      case False
      with Json Some have "check_budget m t w = w\<lparr>console := console w @ []\<rparr>"
        by (simp add: check_budget_def readBudgets_def)
      then show ?thesis by (intro exI [of _ "[]"]) simp
    next
      case True
      with Json Some have "\<exists>l. check_budget m t w = w\<lparr>console := console w @ [l]\<rparr>"
        by (cases "js_ge t (JSON_number z)")
           (simp_all add: check_budget_def readBudgets_def console_log_def, blast+)
      then obtain l where "check_budget m t w = w\<lparr>console := console w @ [l]\<rparr>" by blast
      then show ?thesis by (intro exI [of _ "[l]"]) simp
    qed
  qed
qed

text \<open>The breakdown prints a line for every entry up to the first one whose value is
  a string, and fails there with a TypeError.\<close>

lemma print_entries_eq:
  "print_entries kvs w =
     (if takeWhile (\<lambda>kv. snd kv \<noteq> Text) kvs = kvs then Inr () else Inl TypeError,
      w\<lparr>console := console w @
           [Log [Lit ''# '', Lit (padEnd k 12), Lit '': $'', Fixed n 2].
              (k, Amount n) \<leftarrow> takeWhile (\<lambda>kv. snd kv \<noteq> Text) kvs]\<rparr>)"
proof (induction kvs w rule: print_entries.induct)
  case (1 w)
  show ?case by simp
next
  case (2 k n kvs w)
  then show ?case by (simp add: console_log_def)
next
  case (3 k kvs w)
  show ?case by simp
qed

lemma print_byCategory_eq:
  "print_byCategory es w =
     (let entries = Object_entries (byCategory_of es);
          numeric = takeWhile (\<lambda>kv. snd kv \<noteq> Text) entries
      in (if numeric = entries then Inr () else Inl TypeError,
          w\<lparr>console := console w @
               Log [Lit (CHR 0x0A # ''# Expenses by category:'')] #
               [Log [Lit ''# '', Lit (padEnd k 12), Lit '': $'', Fixed n 2].
                  (k, Amount n) \<leftarrow> numeric]\<rparr>))"
  by (simp add: print_byCategory_def print_entries_eq console_log_def Let_def)

lemma print_byCategory_console:
  "\<exists>ls. console (snd (print_byCategory es w)) = console w @ ls"
  by (simp add: print_byCategory_eq Let_def)

text \<open>The run of \<open>summary\<close> in its two branches.\<close>

lemma summary_month_eq:
  assumes "readExpenses w = (expenses, w1)" and "truthy_num m"
  shows "summary_action (Some m) c g w =
           (let by_month = filter (\<lambda>e. strict_eq (month_of e) m) expenses;
                w2 = check_budget m (total_of by_month)
                       (w1\<lparr>console := console w1 @
                             [Log [Lit ''# Total expenses for '', Month_name m, Lit '': $'',
                                   Raw (total_of by_month)]]\<rparr>)
            in if g then print_byCategory by_month w2 else (Inr (), w2))"
  using assms by (simp add: summary_action_def console_log_def Let_def)

lemma summary_overall_eq:
  assumes "readExpenses w = (expenses, w1)" and "mo = None \<or> (\<exists>m. mo = Some m \<and> \<not> truthy_num m)"
  shows "summary_action mo c g w =
           (let filtered = (case c of
                              None \<Rightarrow> expenses
                            | Some s \<Rightarrow> if s = [] then expenses
                                        else filter (matches_category s) expenses);
                w2 = w1\<lparr>console := console w1 @
                           [Log [Lit ''# Total expenses: $'', Raw (total_of filtered)]]\<rparr>
            in if g then print_byCategory filtered w2 else (Inr (), w2))"
  using assms
  by (auto simp: summary_action_def console_log_def Let_def truthy_str_def split: option.splits)

text \<open>
  Claim C4, as stated, has the category filter discarded whenever a month is
  supplied. A month option of 0 (or one that is not a number) is falsy: the month
  is what is discarded, and the category filter is kept.
\<close>

theorem month_zero_keeps_category_counterexample:
  "summary_action (Some (Num 0)) (Some ''Food'') False
     (world_of [lunch, coffee, rent, taxi] Missing)
     = (Inr (),
        \<lparr>expenses_json = Json [lunch, coffee, rent, taxi] 2, budgets_json = Missing,
         files = Map.empty, now = \<lparr>year = 2024, month = 8, day = 15\<rparr>,
         argument_limit = 100000,
         console = [Log [Lit ''# Total expenses: $'', Raw (Num 20)]]\<rparr>)
   \<and> summary_action (Some (Num 0)) None False (world_of [lunch, coffee, rent, taxi] Missing)
     = (Inr (),
        \<lparr>expenses_json = Json [lunch, coffee, rent, taxi] 2, budgets_json = Missing,
         files = Map.empty, now = \<lparr>year = 2024, month = 8, day = 15\<rparr>,
         argument_limit = 100000,
         console = [Log [Lit ''# Total expenses: $'', Raw (Num 630)]]\<rparr>)"
  by (simp add: eval_defs)

text \<open>
  Claim C4, amended. When the month option is a number other than 0 and NaN, the
  run of \<open>summary\<close> is the run without the category option, whatever the category:
  after what reading the store printed, the first line is the month total, which
  is the amounts of all records whose date has that month, added from left to
  right in double arithmetic; this is their exact sum when the amounts are
  integers whose sizes add up to \<open>2^53\<close> at most. When the month option is 0 or NaN,
  the run is the run without the month option, and the category filter is kept.
\<close>

theorem summary_month_discards_category:
  assumes "readExpenses w = (expenses, w1)"
  shows "summary_action (Some m) c g w =
           (if truthy_num m then summary_action (Some m) None g w
            else summary_action None c g w)
       \<and> (truthy_num m \<longrightarrow>
            (\<exists>rest. console (snd (summary_action (Some m) c g w)) =
                      console w1 @
                      Log [Lit ''# Total expenses for '', Month_name m, Lit '': $'',
                           Raw (foldl (\<lambda>sum e. js_add sum (amount e)) (Num 0)
                                  (filter (\<lambda>e. strict_eq (month_of e) m) expenses))] # rest))
       \<and> (\<forall>ns. map amount (filter (\<lambda>e. strict_eq (month_of e) m) expenses)
                  = map (\<lambda>n. Num (of_int n)) ns \<and> (\<Sum>n\<leftarrow>ns. \<bar>n\<bar>) \<le> 2 ^ 53 \<longrightarrow>
               foldl (\<lambda>sum e. js_add sum (amount e)) (Num 0)
                 (filter (\<lambda>e. strict_eq (month_of e) m) expenses) = Num (of_int (sum_list ns)))"
proof (intro conjI allI impI)
  show "summary_action (Some m) c g w =
           (if truthy_num m then summary_action (Some m) None g w
            else summary_action None c g w)"
    by (simp add: summary_month_eq [OF assms] summary_overall_eq [OF assms])
next
  assume m: "truthy_num m"
  let ?by_month = "filter (\<lambda>e. strict_eq (month_of e) m) expenses"
  let ?w = "w1\<lparr>console := console w1 @
                  [Log [Lit ''# Total expenses for '', Month_name m, Lit '': $'',
                        Raw (total_of ?by_month)]]\<rparr>"
  obtain ls where ls: "check_budget m (total_of ?by_month) ?w = ?w\<lparr>console := console ?w @ ls\<rparr>"
    using check_budget_console [of m "total_of ?by_month" ?w] by blast
  obtain ls' where "console (snd (print_byCategory ?by_month (?w\<lparr>console := console ?w @ ls\<rparr>)))
                      = console (?w\<lparr>console := console ?w @ ls\<rparr>) @ ls'"
    using print_byCategory_console by blast
  with ls show "\<exists>rest. console (snd (summary_action (Some m) c g w)) =
                      console w1 @
                      Log [Lit ''# Total expenses for '', Month_name m, Lit '': $'',
                           Raw (foldl (\<lambda>sum e. js_add sum (amount e)) (Num 0)
                                  (filter (\<lambda>e. strict_eq (month_of e) m) expenses))] # rest"
    by (simp add: summary_month_eq [OF assms m] Let_def total_of_def)
next
  fix ns
  assume "map amount (filter (\<lambda>e. strict_eq (month_of e) m) expenses)
            = map (\<lambda>n. Num (of_int n)) ns \<and> (\<Sum>n\<leftarrow>ns. \<bar>n\<bar>) \<le> 2 ^ 53"
  then show "foldl (\<lambda>sum e. js_add sum (amount e)) (Num 0)
               (filter (\<lambda>e. strict_eq (month_of e) m) expenses) = Num (of_int (sum_list ns))"
    using total_of_integers [of "filter (\<lambda>e. strict_eq (month_of e) m) expenses" ns]
    by (simp add: total_of_def)
qed

theorem summary_month_discards_category_witness:
  "readExpenses (world_of [lunch, coffee, rent, taxi] Missing)
     = ([lunch, coffee, rent, taxi], world_of [lunch, coffee, rent, taxi] Missing)
   \<and> truthy_num (Num 8)
   \<and> summary_action (Some (Num 8)) (Some ''Food'') False
       (world_of [lunch, coffee, rent, taxi] Missing)
     = summary_action (Some (Num 8)) None False (world_of [lunch, coffee, rent, taxi] Missing)
   \<and> map amount (filter (\<lambda>e. strict_eq (month_of e) (Num 8)) [lunch, coffee, rent, taxi])
     = map (\<lambda>n. Num (of_int n)) [20, 5, 575]
   \<and> (\<Sum>n\<leftarrow>[20, 5, 575 :: int]. \<bar>n\<bar>) \<le> 2 ^ 53
   \<and> console (snd (summary_action (Some (Num 8)) (Some ''Food'') False
                     (world_of [lunch, coffee, rent, taxi] Missing)))
     = [Log [Lit ''# Total expenses for '', Month_name (Num 8), Lit '': $'', Raw (Num 600)]]"
  using summary_month_discards_category
          [of "world_of [lunch, coffee, rent, taxi] Missing" "[lunch, coffee, rent, taxi]"
              "world_of [lunch, coffee, rent, taxi] Missing" "Num 8" "Some ''Food''" False]
  by (simp add: eval_defs)




text \<open>A category named like a property that every object inherits: the breakdown
  stops there with a TypeError, after the lines before it. A category
  \<open>__proto__\<close> gets no line at all.\<close>

lemma breakdown_inherited_name:
  "summary_action None None True
     (world_of [lunch, coffee\<lparr>category := Some ''constructor''\<rparr>, rent] Missing) =
     (Inl TypeError,
      \<lparr>expenses_json = Json [lunch, coffee\<lparr>category := Some ''constructor''\<rparr>, rent] 2,
       budgets_json = Missing, files = Map.empty,
       now = \<lparr>year = 2024, month = 8, day = 15\<rparr>, argument_limit = 100000,
       console = [Log [Lit ''# Total expenses: $'', Raw (Num 600)],
                  Log [Lit (CHR 0x0A # ''# Expenses by category:'')],
                  Log [Lit ''# '', Lit ''Food        '', Lit '': $'', Fixed (Num 20) 2]]\<rparr>)"
  "summary_action None None True
     (world_of [lunch, coffee\<lparr>category := Some ''__proto__''\<rparr>] Missing) =
     (Inr (),
      \<lparr>expenses_json = Json [lunch, coffee\<lparr>category := Some ''__proto__''\<rparr>] 2,
       budgets_json = Missing, files = Map.empty,
       now = \<lparr>year = 2024, month = 8, day = 15\<rparr>, argument_limit = 100000,
       console = [Log [Lit ''# Total expenses: $'', Raw (Num 25)],
                  Log [Lit (CHR 0x0A # ''# Expenses by category:'')],
                  Log [Lit ''# '', Lit ''Food        '', Lit '': $'', Fixed (Num 20) 2]]\<rparr>)"
  by (simp_all add: eval_defs entries_defs)

text \<open>
  Claim C7, as stated, covers every budget set for the month. A budget of 0 is
  falsy, and the test \<open>if (BUDGETS[options.month])\<close> then skips the comparison: with
  a budget of 0 for month 8 and August expenses of 600, only the total is printed.
\<close>

theorem zero_budget_counterexample:
  "readBudgets Map.empty (world_of [lunch, coffee, rent] (Json [Num 8 \<mapsto> Num 0] 2))
     = ([Num 8 \<mapsto> Num 0], world_of [lunch, coffee, rent] (Json [Num 8 \<mapsto> Num 0] 2))
   \<and> summary_action (Some (Num 8)) None False
       (world_of [lunch, coffee, rent] (Json [Num 8 \<mapsto> Num 0] 2)) =
       (Inr (),
        \<lparr>expenses_json = Json [lunch, coffee, rent] 2,
         budgets_json = Json [Num 8 \<mapsto> Num 0] 2, files = Map.empty,
         now = \<lparr>year = 2024, month = 8, day = 15\<rparr>, argument_limit = 100000,
         console = [Log [Lit ''# Total expenses for '', Month_name (Num 8), Lit '': $'',
                         Raw (Num 600)]]\<rparr>)"
  by (simp add: eval_defs fun_eq_iff)

text \<open>
  Claim C7, amended. Let the month option \<open>m\<close> be a number other than 0 and NaN, and
  the budget file be absent or parseable. \<open>summary\<close> for month \<open>m\<close> prints the total
  of the month and then: no budget line when no budget is stored for \<open>m\<close>, or when
  the budget stored is 0 or null; otherwise one line, the warning with
  \<open>(total - budget).toFixed(2)\<close> when \<open>total >= budget\<close>, and else the remaining
  budget \<open>(budget - total).toFixed(2)\<close>, the total and both differences being
  computed in double arithmetic. With a budget of 500 and August expenses of 20, 5
  and 575 the total is 600 and the warning carries 100.
\<close>

theorem summary_prints_budget_line:
  assumes "readExpenses w = (expenses, w1)" and "readBudgets Map.empty w = (B, w)"
      and "truthy_num m"
  shows "let by_month = filter (\<lambda>e. strict_eq (month_of e) m) expenses;
             tot = foldl (\<lambda>sum e. js_add sum (amount e)) (Num 0) by_month;
             w2 = w1\<lparr>console := console w1 @
                        Log [Lit ''# Total expenses for '', Month_name m, Lit '': $'', Raw tot] #
                        (case B m of
                           None \<Rightarrow> []
                         | Some budget \<Rightarrow>
                             if budget = Num 0 \<or> budget = Null then []
                             else if js_ge tot budget then
                               [Log [Lit (''# WARNING: You'' @ [CHR 0x27] @ ''ve exceeded your ''),
                                     Month_name m, Lit '' budget of $'', Raw budget,
                                     Lit '' by $'', Fixed (js_add tot (js_neg budget)) 2]]
                             else
                               [Log [Lit ''# Remaining budget for '', Month_name m, Lit '': $'',
                                     Fixed (js_add budget (js_neg tot)) 2]])\<rparr>
         in summary_action (Some m) c g w =
              (if g then print_byCategory by_month w2 else (Inr (), w2))"
proof -
  let ?by_month = "filter (\<lambda>e. strict_eq (month_of e) m) expenses"
  let ?w = "w1\<lparr>console := console w1 @
                  [Log [Lit ''# Total expenses for '', Month_name m, Lit '': $'',
                        Raw (total_of ?by_month)]]\<rparr>"
  from readExpenses_world [OF assms(1)] have b: "budgets_json ?w = budgets_json w" by simp
  have falsy: "\<not> truthy_num budget \<longleftrightarrow> budget = Num 0 \<or> budget = Null"
    if "B m = Some budget" for budget
  proof -
    from readBudgets_parsed [OF assms(2), of m] that have "JSON_number budget = budget" by simp
    then show ?thesis by (cases budget) auto
  qed
  have cb: "check_budget m t (w1\<lparr>console := x\<rparr>) =
              w1\<lparr>console := x @
                   (case B m of
                      None \<Rightarrow> []
                    | Some budget \<Rightarrow>
                        if budget = Num 0 \<or> budget = Null then []
                        else if js_ge t budget then
                          [Log [Lit (''# WARNING: You'' @ [CHR 0x27] @ ''ve exceeded your ''),
                                Month_name m, Lit '' budget of $'', Raw budget,
                                Lit '' by $'', Fixed (js_add t (js_neg budget)) 2]]
                        else
                          [Log [Lit ''# Remaining budget for '', Month_name m, Lit '': $'',
                                Fixed (js_add budget (js_neg t)) 2]])\<rparr>" for t x
    using check_budget_eq [OF assms(2), of "w1\<lparr>console := x\<rparr>" m t]
      readExpenses_world [OF assms(1)] falsy
    by (auto simp: js_sub_def split: option.splits)
  show ?thesis
    by (simp add: summary_month_eq [OF assms(1,3)] cb Let_def total_of_def)
qed

theorem summary_prints_budget_line_witness:
  "readExpenses (world_of [lunch, coffee, rent] (Json [Num 8 \<mapsto> Num 500] 2))
     = ([lunch, coffee, rent], world_of [lunch, coffee, rent] (Json [Num 8 \<mapsto> Num 500] 2))
   \<and> readBudgets Map.empty (world_of [lunch, coffee, rent] (Json [Num 8 \<mapsto> Num 500] 2))
     = ([Num 8 \<mapsto> Num 500], world_of [lunch, coffee, rent] (Json [Num 8 \<mapsto> Num 500] 2))
   \<and> truthy_num (Num 8)
   \<and> summary_action (Some (Num 8)) None False
       (world_of [lunch, coffee, rent] (Json [Num 8 \<mapsto> Num 500] 2)) =
       (Inr (),
        \<lparr>expenses_json = Json [lunch, coffee, rent] 2,
         budgets_json = Json [Num 8 \<mapsto> Num 500] 2, files = Map.empty,
         now = \<lparr>year = 2024, month = 8, day = 15\<rparr>, argument_limit = 100000,
         console =
           [Log [Lit ''# Total expenses for '', Month_name (Num 8), Lit '': $'', Raw (Num 600)],
            Log [Lit (''# WARNING: You'' @ [CHR 0x27] @ ''ve exceeded your ''),
                 Month_name (Num 8), Lit '' budget of $'', Raw (Num 500), Lit '' by $'',
                 Fixed (Num 100) 2]]\<rparr>)"
  using summary_prints_budget_line
          [of "world_of [lunch, coffee, rent] (Json [Num 8 \<mapsto> Num 500] 2)"
              "[lunch, coffee, rent]"
              "world_of [lunch, coffee, rent] (Json [Num 8 \<mapsto> Num 500] 2)"
              "[Num 8 \<mapsto> Num 500]" "Num 8" None False]
  by (simp add: eval_defs fun_eq_iff)

text \<open>The comparison is one of doubles. With the amounts \<open>0.1\<close> and \<open>0.7\<close> and a
  budget of \<open>0.8\<close> the total is the double below the budget: the line printed is
  the remaining budget, of \<open>2^-53\<close>.\<close>

lemma budget_of_eight_tenths:
  "console (snd (summary_action (Some (Num 8)) None False
     (world_of [lunch\<lparr>amount := Num (3602879701896397 / 36028797018963968)\<rparr>,
                coffee\<lparr>amount := Num (3152519739159347 / 4503599627370496)\<rparr>]
        (Json [Num 8 \<mapsto> Num (3602879701896397 / 4503599627370496)] 2)))) =
     [Log [Lit ''# Total expenses for '', Month_name (Num 8), Lit '': $'',
           Raw (Num (7205759403792793 / 9007199254740992))],
      Log [Lit ''# Remaining budget for '', Month_name (Num 8), Lit '': $'',
           Fixed (Num (1 / 9007199254740992)) 2]]"
  using one_tenth_plus_seven_tenths
  by (simp add: eval_defs round_double_of_tenths round_double_at [of "- 53"]
        round_half_even_def Let_def floor_numeral_div)

end
